theory Spec2Isabelle
  imports Complex_Main "HOL-Library.Word"
begin

section \<open>CubismModel: the parameter and override state of a Live2D model\<close>

text \<open>
  A shallow embedding of \<^verbatim>\<open>src/model/cubismmodel.ts\<close>. Every method of the class
  \<^verbatim>\<open>CubismModel\<close> that is used below is a function on the record \<open>CubismModel\<close>;
  a method that mutates the object returns the new record, a method that can throw
  returns a sum whose left summand is the error.
\<close>

subsection \<open>Numbers\<close>

text \<open>
  What an expression of TypeScript type \<^verbatim>\<open>number\<close> evaluates to at run time: a finite
  value, one of the two infinities, \<open>NaN\<close>, or \<^verbatim>\<open>undefined\<close> (the result of a read
  outside an array). Finite values are reals: the rounding of double-precision
  arithmetic and the sign of zero are not modelled. The rounding of a store into a
  \<^verbatim>\<open>Float32Array\<close> is modelled, by \<open>Math_fround\<close> below. An arithmetic operator or a
  comparison converts \<^verbatim>\<open>undefined\<close> to \<open>NaN\<close>.
\<close>

datatype num = Fin real | PInf | NInf | NaN | Undefined

instantiation num :: "{plus, minus, times, ord}"
begin

fun plus_num :: "num \<Rightarrow> num \<Rightarrow> num" where
  "Fin x + Fin y = Fin (x + y)"
| "Fin x + PInf = PInf"
| "Fin x + NInf = NInf"
| "PInf + Fin y = PInf"
| "PInf + PInf = PInf"
| "NInf + Fin y = NInf"
| "NInf + NInf = NInf"
| "_ + _ = NaN"

fun minus_num :: "num \<Rightarrow> num \<Rightarrow> num" where
  "Fin x - Fin y = Fin (x - y)"
| "Fin x - PInf = NInf"
| "Fin x - NInf = PInf"
| "PInf - Fin y = PInf"
| "PInf - NInf = PInf"
| "NInf - Fin y = NInf"
| "NInf - PInf = NInf"
| "_ - _ = NaN"

fun times_num :: "num \<Rightarrow> num \<Rightarrow> num" where
  "Fin x * Fin y = Fin (x * y)"
| "Fin x * PInf = (if x = 0 then NaN else if 0 < x then PInf else NInf)"
| "Fin x * NInf = (if x = 0 then NaN else if 0 < x then NInf else PInf)"
| "PInf * Fin y = (if y = 0 then NaN else if 0 < y then PInf else NInf)"
| "NInf * Fin y = (if y = 0 then NaN else if 0 < y then NInf else PInf)"
| "PInf * PInf = PInf"
| "PInf * NInf = NInf"
| "NInf * PInf = NInf"
| "NInf * NInf = PInf"
| "_ * _ = NaN"

text \<open>A comparison with \<open>NaN\<close> or \<^verbatim>\<open>undefined\<close> is false.\<close>

fun less_num :: "num \<Rightarrow> num \<Rightarrow> bool" where
  "Fin x < Fin y \<longleftrightarrow> x < y"
| "Fin x < PInf \<longleftrightarrow> True"
| "NInf < Fin y \<longleftrightarrow> True"
| "NInf < PInf \<longleftrightarrow> True"
| "(_ :: num) < _ \<longleftrightarrow> False"

fun less_eq_num :: "num \<Rightarrow> num \<Rightarrow> bool" where
  "Fin x \<le> Fin y \<longleftrightarrow> x \<le> y"
| "Fin x \<le> PInf \<longleftrightarrow> True"
| "NInf \<le> Fin y \<longleftrightarrow> True"
| "NInf \<le> PInf \<longleftrightarrow> True"
| "PInf \<le> PInf \<longleftrightarrow> True"
| "NInf \<le> NInf \<longleftrightarrow> True"
| "(_ :: num) \<le> _ \<longleftrightarrow> False"

instance ..

end

definition Number_isNaN :: "num \<Rightarrow> bool" where
  \<comment> \<open>\<^verbatim>\<open>Number.isNaN\<close> does not coerce its argument\<close>
  "Number_isNaN a = (a = NaN)"

definition isNumber :: "num \<Rightarrow> bool" where
  \<comment> \<open>the argument converts to a number other than \<open>NaN\<close>\<close>
  "isNumber a = (a \<noteq> NaN \<and> a \<noteq> Undefined)"

definition Math_min :: "num \<Rightarrow> num \<Rightarrow> num" where
  "Math_min a b = (if isNumber a \<and> isNumber b then (if a \<le> b then a else b) else NaN)"

definition Math_max :: "num \<Rightarrow> num \<Rightarrow> num" where
  "Math_max a b = (if isNumber a \<and> isNumber b then (if a \<le> b then b else a) else NaN)"

text \<open>
  Modelled from the spec: \<^verbatim>\<open>CubismMath.mod\<close> (\<^verbatim>\<open>src/math/cubismmath.ts\<close> is not among
  the sources). The spec calls it "modulo arithmetic" whose result "is not a finite
  number" for a degenerate span. The remainder takes the sign of the dividend, as the
  remainder of the language does.
\<close>

definition CubismMath_mod :: "num \<Rightarrow> num \<Rightarrow> num" where
  "CubismMath_mod dividend divisor =
     (case (dividend, divisor) of
        (Fin a, Fin b) \<Rightarrow>
          if b = 0 then NaN
          else Fin (sgn a * (\<bar>a\<bar> - of_int \<lfloor>\<bar>a\<bar> / \<bar>b\<bar>\<rfloor> * \<bar>b\<bar>))
      | _ \<Rightarrow> NaN)"

text \<open>
  Modelled from the spec: \<^verbatim>\<open>CubismMath.clamp\<close> (same missing file), in the spec's words
  \<^verbatim>\<open>value = max(min(value, max), min)\<close>.
\<close>

definition CubismMath_clamp :: "num \<Rightarrow> num \<Rightarrow> num \<Rightarrow> num" where
  "CubismMath_clamp val minValue maxValue = Math_max (Math_min val maxValue) minValue"

subsection \<open>Single-precision values\<close>

text \<open>
  An element of a \<^verbatim>\<open>Float32Array\<close> is a single-precision value, and a store converts
  the number it is given to the nearest one, ties to the even significand, a value
  beyond the range to an infinity and \<^verbatim>\<open>undefined\<close> to \<open>NaN\<close>. \<open>binade x\<close> is the exponent
  of the power of two at or below \<open>\<bar>x\<bar>\<close>, at least \<open>-126\<close> (below, the values are
  subnormal); the single-precision values of that binade are the multiples of
  \<open>2 powi (binade x - 23)\<close>.
\<close>

definition binade :: "real \<Rightarrow> int" where
  "binade x = max (- 126) \<lfloor>log 2 \<bar>x\<bar>\<rfloor>"

definition roundTiesToEven :: "real \<Rightarrow> int" where
  "roundTiesToEven q =
     (let f = \<lfloor>q\<rfloor>; d = q - of_int f in
      if d < 1 / 2 then f else if 1 / 2 < d then f + 1 else if even f then f else f + 1)"

definition fround_real :: "real \<Rightarrow> real" where
  "fround_real x =
     (let ulp = 2 powi (binade x - 23) in of_int (roundTiesToEven (x / ulp)) * ulp)"

definition Math_fround :: "num \<Rightarrow> num" where
  \<comment> \<open>\<^verbatim>\<open>Math.fround\<close>: the conversion that a store into a \<^verbatim>\<open>Float32Array\<close> applies\<close>
  "Math_fround v =
     (case v of
        Fin x \<Rightarrow>
          if x = 0 then Fin 0
          else let y = fround_real x in
               if 2 ^ 128 \<le> y then PInf else if y \<le> - (2 ^ 128) then NInf else Fin y
      | PInf \<Rightarrow> PInf
      | NInf \<Rightarrow> NInf
      | NaN \<Rightarrow> NaN
      | Undefined \<Rightarrow> NaN)"

text \<open>The single-precision values: the numbers that the conversion leaves as they are.\<close>

typedef f32 = "{v :: num. Math_fround v = v}"
  by (rule exI[of _ NaN]) (simp add: Math_fround_def)

definition to_f32 :: "num \<Rightarrow> f32" where
  \<comment> \<open>what a store puts into the array\<close>
  "to_f32 v = Abs_f32 (Math_fround v)"

definition of_f32 :: "f32 \<Rightarrow> num" where
  \<comment> \<open>what a read takes out of the array\<close>
  "of_f32 x = Rep_f32 x"

subsection \<open>Errors and containers\<close>

text \<open>
  Modelled from the spec: \<^verbatim>\<open>CSM_ASSERT\<close> (\<^verbatim>\<open>src/utils/cubismdebug.ts\<close> is not among the
  sources). The spec says that an out-of-range index on a real-entity accessor is
  "asserted (fail-fast) rather than recovered": a failed assertion ends the call with
  \<open>AssertionFailed\<close>. \<open>TypeError\<close> is what the language throws for a property access
  on \<^verbatim>\<open>undefined\<close>.
\<close>

datatype error = TypeError | AssertionFailed

text \<open>
  Modelled from the spec: \<^verbatim>\<open>csmVector\<close> (\<^verbatim>\<open>src/type/csmvector.ts\<close> is not among the
  sources), a growable array. \<open>vec_at\<close> (the method \<^verbatim>\<open>at\<close>) reads a slot and
  yields \<open>None\<close> (\<^verbatim>\<open>undefined\<close>) outside the vector; \<^verbatim>\<open>pushBack\<close> is \<open>xs @ [x]\<close> and
  stores what it is given (for an object, the reference), \<^verbatim>\<open>getSize\<close> is \<open>length\<close>.
  The same read is used for the integer typed arrays of the snapshot.
\<close>

definition vec_at :: "'a list \<Rightarrow> int \<Rightarrow> 'a option" where
  "vec_at xs i = (if 0 \<le> i \<and> i < int (length xs) then Some (xs ! nat i) else None)"

text \<open>\<^verbatim>\<open>v.at(i).field = x\<close>: a \<open>TypeError\<close> when the slot does not exist.\<close>

definition at_update :: "'a list \<Rightarrow> int \<Rightarrow> ('a \<Rightarrow> 'a) \<Rightarrow> error + 'a list" where
  "at_update xs i f =
     (case vec_at xs i of None \<Rightarrow> Inl TypeError | Some x \<Rightarrow> Inr (xs[nat i := f x]))"

text \<open>
  A \<^verbatim>\<open>Float32Array\<close> of the snapshot: a read outside it is \<^verbatim>\<open>undefined\<close>, a write
  outside it is ignored, and a write inside it stores the single-precision value
  nearest to the number written.
\<close>

definition f32_get :: "f32 list \<Rightarrow> int \<Rightarrow> num" where
  "f32_get xs i = (if 0 \<le> i \<and> i < int (length xs) then of_f32 (xs ! nat i) else Undefined)"

definition f32_set :: "f32 list \<Rightarrow> int \<Rightarrow> num \<Rightarrow> f32 list" where
  "f32_set xs i v = (if 0 \<le> i \<and> i < int (length xs) then xs[nat i := to_f32 v] else xs)"

text \<open>
  Modelled from the spec: \<^verbatim>\<open>csmMap\<close> (\<^verbatim>\<open>src/type/csmmap.ts\<close> is not among the sources),
  the "absent identifier overflow table": an array of key-value pairs in insertion
  order. \<open>setValue\<close> overwrites the value of a key that exists and appends a pair
  otherwise; \<open>appendKey\<close> "appends a default value slot" for a key that does not exist
  yet, and the slot holds no number (\<open>Undefined\<close>) until one is set.
\<close>

type_synonym ('k, 'v) csmMap = "('k \<times> 'v) list"

definition isExist :: "('k, 'v) csmMap \<Rightarrow> 'k \<Rightarrow> bool" where
  "isExist m k = (k \<in> set (map fst m))"

definition getValue :: "('k, 'v) csmMap \<Rightarrow> 'k \<Rightarrow> 'v option" where
  "getValue m k = map_of m k"

fun setValue :: "('k, 'v) csmMap \<Rightarrow> 'k \<Rightarrow> 'v \<Rightarrow> ('k, 'v) csmMap" where
  "setValue [] k v = [(k, v)]"
| "setValue ((k', v') # m) k v =
     (if k' = k then (k, v) # m else (k', v') # setValue m k v)"

definition appendKey :: "('k, num) csmMap \<Rightarrow> 'k \<Rightarrow> ('k, num) csmMap" where
  "appendKey m k = (if isExist m k then m else m @ [(k, Undefined)])"

definition getSize :: "('k, 'v) csmMap \<Rightarrow> nat" where
  "getSize m = length m"

subsection \<open>The data of the model\<close>

text \<open>
  Modelled from the spec: the identifier registry (\<^verbatim>\<open>CubismIdManager\<close> is not among the
  sources) "returns a stable, comparable handle for a name string; equality is by
  handle". A handle is represented by the name it stands for, and \<open>getId\<close> of a
  missing name (\<^verbatim>\<open>undefined\<close>) is a \<open>TypeError\<close>.
\<close>

type_synonym CubismIdHandle = string

definition getId :: "string option \<Rightarrow> error + CubismIdHandle" where
  "getId n = (case n of None \<Rightarrow> Inl TypeError | Some x \<Rightarrow> Inr x)"

record CubismTextureColor =
  colR :: num
  colG :: num
  colB :: num
  colA :: num

record ParameterRepeatData =
  isOverriddenR :: bool
  isParameterRepeated :: bool

record DrawableColorData =
  isOverriddenD :: bool
  colorD :: CubismTextureColor

record PartColorData =
  isOverriddenP :: bool
  colorP :: CubismTextureColor

record DrawableCullingData =
  isOverriddenC :: bool
  isCulling :: bool

text \<open>
  The snapshot \<^verbatim>\<open>Live2DCubismCore.Model\<close> of the deformation engine, with the arrays
  the methods below read: \<^verbatim>\<open>parameters.count\<close> is \<open>parameters_count\<close>, and so on.
\<close>

record Model =
  parameters_count :: nat
  parameters_ids :: "string list"
  parameters_values :: "f32 list"
  parameters_minimumValues :: "f32 list"
  parameters_maximumValues :: "f32 list"
  parameters_repeats :: "int list"
  parts_count :: nat
  parts_ids :: "string list"
  parts_opacities :: "f32 list"
  drawables_count :: nat
  drawables_ids :: "string list"
  drawables_constantFlags :: "8 word list"
  drawables_parentPartIndices :: "int list"
  drawables_multiplyColors :: "f32 list"
  drawables_screenColors :: "f32 list"

text \<open>
  The fields of the class, without their leading underscore (the fields \<^verbatim>\<open>isOverridden\<close>
  and \<^verbatim>\<open>color\<close> of the four record classes carry the initial of their class, field
  names being global here). \<^verbatim>\<open>_parameterValues\<close> and \<^verbatim>\<open>_partOpacities\<close> are, after
  \<^verbatim>\<open>initialize\<close>, the arrays \<^verbatim>\<open>_model.parameters.values\<close> and \<^verbatim>\<open>_model.parts.opacities\<close>
  themselves, so they are read and written in \<open>model\<close>. Every vector of override
  records but one holds an object of its own in each slot (each \<^verbatim>\<open>pushBack\<close> is given a
  fresh \<^verbatim>\<open>new\<close>), and is a list of records. \<^verbatim>\<open>_userCullings\<close> is given the same object
  again and again, so it is a list of references into the store \<open>cullingStore\<close>, in
  which \<open>cullingCount\<close> objects have been allocated.
\<close>

record CubismModel =
  model :: Model
  savedParameters :: "num list"
  parameterIds :: "CubismIdHandle list"
  partIds :: "CubismIdHandle list"
  drawableIds :: "CubismIdHandle list"
  isOverriddenParameterRepeat :: bool
  isOverriddenModelMultiplyColors :: bool
  isOverriddenModelScreenColors :: bool
  isOverriddenCullings :: bool
  modelOpacity :: num
  userParameterRepeatDataList :: "ParameterRepeatData list"
  userMultiplyColors :: "DrawableColorData list"
  userScreenColors :: "DrawableColorData list"
  userCullings :: "nat list"
  cullingStore :: "nat \<Rightarrow> DrawableCullingData"
  cullingCount :: nat
  userPartMultiplyColors :: "PartColorData list"
  userPartScreenColors :: "PartColorData list"
  partChildDrawables :: "int list list"
  notExistPartId :: "(CubismIdHandle, int) csmMap"
  notExistParameterId :: "(CubismIdHandle, int) csmMap"
  notExistParameterValues :: "(int, num) csmMap"
  notExistPartOpacities :: "(int, num) csmMap"

subsection \<open>Construction and initialisation\<close>

definition CubismModel_new :: "Model \<Rightarrow> CubismModel" where
  \<comment> \<open>the constructor\<close>
  "CubismModel_new m =
     \<lparr>model = m,
      savedParameters = [],
      parameterIds = [],
      partIds = [],
      drawableIds = [],
      isOverriddenParameterRepeat = True,
      isOverriddenModelMultiplyColors = False,
      isOverriddenModelScreenColors = False,
      isOverriddenCullings = False,
      modelOpacity = Fin 1,
      userParameterRepeatDataList = [],
      userMultiplyColors = [],
      userScreenColors = [],
      userCullings = [],
      cullingStore = (\<lambda>_. \<lparr>isOverriddenC = False, isCulling = False\<rparr>),
      cullingCount = 0,
      userPartMultiplyColors = [],
      userPartScreenColors = [],
      partChildDrawables = [],
      notExistPartId = [],
      notExistParameterId = [],
      notExistParameterValues = [],
      notExistPartOpacities = []\<rparr>"

definition white :: CubismTextureColor where
  \<comment> \<open>\<^verbatim>\<open>new CubismTextureColor(1.0, 1.0, 1.0, 1.0)\<close>\<close>
  "white = \<lparr>colR = Fin 1, colG = Fin 1, colB = Fin 1, colA = Fin 1\<rparr>"

definition black :: CubismTextureColor where
  \<comment> \<open>\<^verbatim>\<open>new CubismTextureColor(0.0, 0.0, 0.0, 1.0)\<close>\<close>
  "black = \<lparr>colR = Fin 0, colG = Fin 0, colB = Fin 0, colA = Fin 1\<rparr>"

text \<open>
  The loops of \<^verbatim>\<open>initialize\<close>, each over the indices it is given, in order.
  \<^verbatim>\<open>prepareCapacity\<close> reserves storage and changes no content; it is left out.
\<close>

fun initParameters :: "Model \<Rightarrow> nat list \<Rightarrow> CubismModel \<Rightarrow> error + CubismModel" where
  "initParameters m [] s = Inr s"
| "initParameters m (i # ks) s =
     (case getId (vec_at (parameters_ids m) (int i)) of
        Inl e \<Rightarrow> Inl e
      | Inr h \<Rightarrow>
          initParameters m ks
            (s\<lparr>parameterIds := parameterIds s @ [h],
               userParameterRepeatDataList :=
                 userParameterRepeatDataList s
                   @ [\<lparr>isOverriddenR = False, isParameterRepeated = False\<rparr>]\<rparr>))"

fun initPartIds :: "Model \<Rightarrow> nat list \<Rightarrow> CubismModel \<Rightarrow> error + CubismModel" where
  "initPartIds m [] s = Inr s"
| "initPartIds m (i # ks) s =
     (case getId (vec_at (parts_ids m) (int i)) of
        Inl e \<Rightarrow> Inl e
      | Inr h \<Rightarrow> initPartIds m ks (s\<lparr>partIds := partIds s @ [h]\<rparr>))"

fun initParts :: "nat list \<Rightarrow> CubismModel \<Rightarrow> CubismModel" where
  "initParts [] s = s"
| "initParts (i # ks) s =
     initParts ks
       (s\<lparr>userPartMultiplyColors :=
            userPartMultiplyColors s @ [\<lparr>isOverriddenP = False, colorP = white\<rparr>],
          userPartScreenColors :=
            userPartScreenColors s @ [\<lparr>isOverriddenP = False, colorP = black\<rparr>],
          partChildDrawables := partChildDrawables s @ [[]]\<rparr>)"

definition getDrawableParentPartIndex :: "CubismModel \<Rightarrow> int \<Rightarrow> int option" where
  "getDrawableParentPartIndex s drawableIndex =
     vec_at (drawables_parentPartIndices (model s)) drawableIndex"

text \<open>
  The loop over the drawables; \<open>userCulling\<close> is the reference to the one
  \<^verbatim>\<open>DrawableCullingData\<close> allocated before the loops, pushed for every drawable. A
  parent index that is \<^verbatim>\<open>undefined\<close> is not \<^verbatim>\<open>>= 0\<close>.
\<close>

fun initDrawables :: "nat \<Rightarrow> nat list \<Rightarrow> CubismModel \<Rightarrow> error + CubismModel" where
  "initDrawables userCulling [] s = Inr s"
| "initDrawables userCulling (i # ks) s =
     (case getId (vec_at (drawables_ids (model s)) (int i)) of
        Inl e \<Rightarrow> Inl e
      | Inr h \<Rightarrow>
          (let s1 = s\<lparr>drawableIds := drawableIds s @ [h],
                       userMultiplyColors :=
                         userMultiplyColors s @ [\<lparr>isOverriddenD = False, colorD = white\<rparr>],
                       userScreenColors :=
                         userScreenColors s @ [\<lparr>isOverriddenD = False, colorD = black\<rparr>],
                       userCullings := userCullings s @ [userCulling]\<rparr>
           in case getDrawableParentPartIndex s1 (int i) of
                None \<Rightarrow> initDrawables userCulling ks s1
              | Some parentIndex \<Rightarrow>
                  if parentIndex \<ge> 0 then
                    (case at_update (partChildDrawables s1) parentIndex (\<lambda>c. c @ [int i]) of
                       Inl e \<Rightarrow> Inl e
                     | Inr pcd \<Rightarrow> initDrawables userCulling ks (s1\<lparr>partChildDrawables := pcd\<rparr>))
                  else initDrawables userCulling ks s1))"

definition initialize :: "CubismModel \<Rightarrow> error + CubismModel" where
  "initialize s =
     (let m = model s in
      case initParameters m [0..<parameters_count m] s of
        Inl e \<Rightarrow> Inl e
      | Inr s1 \<Rightarrow>
          (case initPartIds m [0..<parts_count m] s1 of
             Inl e \<Rightarrow> Inl e
           | Inr s2 \<Rightarrow>
               (let userCulling = cullingCount s2;
                    s3 = s2\<lparr>cullingStore :=
                              (cullingStore s2)
                                (userCulling := \<lparr>isOverriddenC = False, isCulling = False\<rparr>),
                            cullingCount := Suc userCulling\<rparr>;
                    s4 = initParts [0..<parts_count m] s3
                in initDrawables userCulling [0..<drawables_count m] s4)))"

subsection \<open>Colours: per drawable, per part, and the model-wide flags\<close>

definition getOverrideFlagForModelMultiplyColors :: "CubismModel \<Rightarrow> bool" where
  "getOverrideFlagForModelMultiplyColors s = isOverriddenModelMultiplyColors s"

definition getOverrideFlagForModelScreenColors :: "CubismModel \<Rightarrow> bool" where
  "getOverrideFlagForModelScreenColors s = isOverriddenModelScreenColors s"

definition setOverrideFlagForModelMultiplyColors :: "CubismModel \<Rightarrow> bool \<Rightarrow> CubismModel" where
  "setOverrideFlagForModelMultiplyColors s value = s\<lparr>isOverriddenModelMultiplyColors := value\<rparr>"

definition setOverrideFlagForModelScreenColors :: "CubismModel \<Rightarrow> bool \<Rightarrow> CubismModel" where
  "setOverrideFlagForModelScreenColors s value = s\<lparr>isOverriddenModelScreenColors := value\<rparr>"

definition getOverrideFlagForDrawableMultiplyColors :: "CubismModel \<Rightarrow> int \<Rightarrow> error + bool" where
  "getOverrideFlagForDrawableMultiplyColors s drawableindex =
     (case vec_at (userMultiplyColors s) drawableindex of
        None \<Rightarrow> Inl TypeError
      | Some d \<Rightarrow> Inr (isOverriddenD d))"

definition getOverrideFlagForDrawableScreenColors :: "CubismModel \<Rightarrow> int \<Rightarrow> error + bool" where
  "getOverrideFlagForDrawableScreenColors s drawableindex =
     (case vec_at (userScreenColors s) drawableindex of
        None \<Rightarrow> Inl TypeError
      | Some d \<Rightarrow> Inr (isOverriddenD d))"

definition setOverrideFlagForDrawableMultiplyColors ::
  "CubismModel \<Rightarrow> int \<Rightarrow> bool \<Rightarrow> error + CubismModel" where
  "setOverrideFlagForDrawableMultiplyColors s drawableindex value =
     (case at_update (userMultiplyColors s) drawableindex (\<lambda>d. d\<lparr>isOverriddenD := value\<rparr>) of
        Inl e \<Rightarrow> Inl e
      | Inr cs \<Rightarrow> Inr (s\<lparr>userMultiplyColors := cs\<rparr>))"

definition setOverrideFlagForDrawableScreenColors ::
  "CubismModel \<Rightarrow> int \<Rightarrow> bool \<Rightarrow> error + CubismModel" where
  "setOverrideFlagForDrawableScreenColors s drawableindex value =
     (case at_update (userScreenColors s) drawableindex (\<lambda>d. d\<lparr>isOverriddenD := value\<rparr>) of
        Inl e \<Rightarrow> Inl e
      | Inr cs \<Rightarrow> Inr (s\<lparr>userScreenColors := cs\<rparr>))"

text \<open>The asset-authored colours: four consecutive entries of a flat array.\<close>

definition getDrawableMultiplyColor :: "CubismModel \<Rightarrow> int \<Rightarrow> CubismTextureColor" where
  "getDrawableMultiplyColor s drawableIndex =
     (let multiplyColors = drawables_multiplyColors (model s);
          index = drawableIndex * 4
      in \<lparr>colR = f32_get multiplyColors index,
          colG = f32_get multiplyColors (index + 1),
          colB = f32_get multiplyColors (index + 2),
          colA = f32_get multiplyColors (index + 3)\<rparr>)"

definition getDrawableScreenColor :: "CubismModel \<Rightarrow> int \<Rightarrow> CubismTextureColor" where
  "getDrawableScreenColor s drawableIndex =
     (let screenColors = drawables_screenColors (model s);
          index = drawableIndex * 4
      in \<lparr>colR = f32_get screenColors index,
          colG = f32_get screenColors (index + 1),
          colB = f32_get screenColors (index + 2),
          colA = f32_get screenColors (index + 3)\<rparr>)"

text \<open>
  \<^verbatim>\<open>flagModel || flagDrawable(index)\<close> evaluates the second flag only when the first is
  false.
\<close>

definition getMultiplyColor :: "CubismModel \<Rightarrow> int \<Rightarrow> error + CubismTextureColor" where
  "getMultiplyColor s index =
     (case (if getOverrideFlagForModelMultiplyColors s then Inr True
            else getOverrideFlagForDrawableMultiplyColors s index) of
        Inl e \<Rightarrow> Inl e
      | Inr True \<Rightarrow>
          (case vec_at (userMultiplyColors s) index of
             None \<Rightarrow> Inl TypeError
           | Some d \<Rightarrow> Inr (colorD d))
      | Inr False \<Rightarrow> Inr (getDrawableMultiplyColor s index))"

definition getScreenColor :: "CubismModel \<Rightarrow> int \<Rightarrow> error + CubismTextureColor" where
  "getScreenColor s index =
     (case (if getOverrideFlagForModelScreenColors s then Inr True
            else getOverrideFlagForDrawableScreenColors s index) of
        Inl e \<Rightarrow> Inl e
      | Inr True \<Rightarrow>
          (case vec_at (userScreenColors s) index of
             None \<Rightarrow> Inl TypeError
           | Some d \<Rightarrow> Inr (colorD d))
      | Inr False \<Rightarrow> Inr (getDrawableScreenColor s index))"

definition setColorD :: "num \<Rightarrow> num \<Rightarrow> num \<Rightarrow> num \<Rightarrow> DrawableColorData \<Rightarrow> DrawableColorData" where
  \<comment> \<open>the four writes \<^verbatim>\<open>x.color.r = r; x.color.g = g; x.color.b = b; x.color.a = a\<close>\<close>
  "setColorD cr cg cb ca d =
     d\<lparr>colorD := (colorD d)\<lparr>colR := cr, colG := cg, colB := cb, colA := ca\<rparr>\<rparr>"

definition setColorP :: "num \<Rightarrow> num \<Rightarrow> num \<Rightarrow> num \<Rightarrow> PartColorData \<Rightarrow> PartColorData" where
  "setColorP cr cg cb ca p =
     p\<lparr>colorP := (colorP p)\<lparr>colR := cr, colG := cg, colB := cb, colA := ca\<rparr>\<rparr>"

definition setMultiplyColorByRGBA ::
  "CubismModel \<Rightarrow> int \<Rightarrow> num \<Rightarrow> num \<Rightarrow> num \<Rightarrow> num \<Rightarrow> error + CubismModel" where
  "setMultiplyColorByRGBA s index cr cg cb ca =
     (case at_update (userMultiplyColors s) index (setColorD cr cg cb ca) of
        Inl e \<Rightarrow> Inl e
      | Inr cs \<Rightarrow> Inr (s\<lparr>userMultiplyColors := cs\<rparr>))"

definition setScreenColorByRGBA ::
  "CubismModel \<Rightarrow> int \<Rightarrow> num \<Rightarrow> num \<Rightarrow> num \<Rightarrow> num \<Rightarrow> error + CubismModel" where
  "setScreenColorByRGBA s index cr cg cb ca =
     (case at_update (userScreenColors s) index (setColorD cr cg cb ca) of
        Inl e \<Rightarrow> Inl e
      | Inr cs \<Rightarrow> Inr (s\<lparr>userScreenColors := cs\<rparr>))"

definition getPartMultiplyColor :: "CubismModel \<Rightarrow> int \<Rightarrow> error + CubismTextureColor" where
  "getPartMultiplyColor s partIndex =
     (case vec_at (userPartMultiplyColors s) partIndex of
        None \<Rightarrow> Inl TypeError
      | Some p \<Rightarrow> Inr (colorP p))"

definition getPartScreenColor :: "CubismModel \<Rightarrow> int \<Rightarrow> error + CubismTextureColor" where
  "getPartScreenColor s partIndex =
     (case vec_at (userPartScreenColors s) partIndex of
        None \<Rightarrow> Inl TypeError
      | Some p \<Rightarrow> Inr (colorP p))"

definition getOverrideColorForPartMultiplyColors :: "CubismModel \<Rightarrow> int \<Rightarrow> error + bool" where
  "getOverrideColorForPartMultiplyColors s partIndex =
     (case vec_at (userPartMultiplyColors s) partIndex of
        None \<Rightarrow> Inl TypeError
      | Some p \<Rightarrow> Inr (isOverriddenP p))"

definition getOverrideColorForPartScreenColors :: "CubismModel \<Rightarrow> int \<Rightarrow> error + bool" where
  "getOverrideColorForPartScreenColors s partIndex =
     (case vec_at (userPartScreenColors s) partIndex of
        None \<Rightarrow> Inl TypeError
      | Some p \<Rightarrow> Inr (isOverriddenP p))"

text \<open>
  \<^verbatim>\<open>setPartColor\<close> and \<^verbatim>\<open>setOverrideColorForPartColors\<close> are handed the two vectors they
  work on; they return both. The loop of each runs over the child drawables of the
  part in order.
\<close>

fun setPartColor_children ::
  "num \<Rightarrow> num \<Rightarrow> num \<Rightarrow> num \<Rightarrow> int list \<Rightarrow> DrawableColorData list
     \<Rightarrow> error + DrawableColorData list" where
  "setPartColor_children cr cg cb ca [] drawableColors = Inr drawableColors"
| "setPartColor_children cr cg cb ca (drawableIndex # rest) drawableColors =
     (case at_update drawableColors drawableIndex (setColorD cr cg cb ca) of
        Inl e \<Rightarrow> Inl e
      | Inr cs \<Rightarrow> setPartColor_children cr cg cb ca rest cs)"

definition setPartColor ::
  "CubismModel \<Rightarrow> int \<Rightarrow> num \<Rightarrow> num \<Rightarrow> num \<Rightarrow> num \<Rightarrow> PartColorData list
     \<Rightarrow> DrawableColorData list \<Rightarrow> error + PartColorData list \<times> DrawableColorData list" where
  "setPartColor s partIndex cr cg cb ca partColors drawableColors =
     (case at_update partColors partIndex (setColorP cr cg cb ca) of
        Inl e \<Rightarrow> Inl e
      | Inr ps \<Rightarrow>
          (case vec_at ps partIndex of
             None \<Rightarrow> Inl TypeError
           | Some p \<Rightarrow>
               if isOverriddenP p then
                 (case vec_at (partChildDrawables s) partIndex of
                    None \<Rightarrow> Inl TypeError
                  | Some children \<Rightarrow>
                      (case setPartColor_children cr cg cb ca children drawableColors of
                         Inl e \<Rightarrow> Inl e
                       | Inr cs \<Rightarrow> Inr (ps, cs)))
               else Inr (ps, drawableColors)))"

definition setPartMultiplyColorByRGBA ::
  "CubismModel \<Rightarrow> int \<Rightarrow> num \<Rightarrow> num \<Rightarrow> num \<Rightarrow> num \<Rightarrow> error + CubismModel" where
  "setPartMultiplyColorByRGBA s partIndex cr cg cb ca =
     (case setPartColor s partIndex cr cg cb ca (userPartMultiplyColors s) (userMultiplyColors s) of
        Inl e \<Rightarrow> Inl e
      | Inr (ps, cs) \<Rightarrow> Inr (s\<lparr>userPartMultiplyColors := ps, userMultiplyColors := cs\<rparr>))"

definition setPartScreenColorByRGBA ::
  "CubismModel \<Rightarrow> int \<Rightarrow> num \<Rightarrow> num \<Rightarrow> num \<Rightarrow> num \<Rightarrow> error + CubismModel" where
  "setPartScreenColorByRGBA s partIndex cr cg cb ca =
     (case setPartColor s partIndex cr cg cb ca (userPartScreenColors s) (userScreenColors s) of
        Inl e \<Rightarrow> Inl e
      | Inr (ps, cs) \<Rightarrow> Inr (s\<lparr>userPartScreenColors := ps, userScreenColors := cs\<rparr>))"

text \<open>
  The loop of \<^verbatim>\<open>setOverrideColorForPartColors\<close>: the flag of the child is written in
  every round, its colour only \<^verbatim>\<open>if (value)\<close>. \<open>p\<close> is \<^verbatim>\<open>partColors.at(partIndex)\<close>.
\<close>

fun setOverrideColorForPartColors_children ::
  "bool \<Rightarrow> PartColorData \<Rightarrow> int list \<Rightarrow> DrawableColorData list
     \<Rightarrow> error + DrawableColorData list" where
  "setOverrideColorForPartColors_children value p [] drawableColors = Inr drawableColors"
| "setOverrideColorForPartColors_children value p (drawableIndex # rest) drawableColors =
     (case at_update drawableColors drawableIndex (\<lambda>d. d\<lparr>isOverriddenD := value\<rparr>) of
        Inl e \<Rightarrow> Inl e
      | Inr cs \<Rightarrow>
          if value then
            (case at_update cs drawableIndex
                    (setColorD (colR (colorP p)) (colG (colorP p)) (colB (colorP p))
                       (colA (colorP p))) of
               Inl e \<Rightarrow> Inl e
             | Inr cs' \<Rightarrow> setOverrideColorForPartColors_children value p rest cs')
          else setOverrideColorForPartColors_children value p rest cs)"

definition setOverrideColorForPartColors ::
  "CubismModel \<Rightarrow> int \<Rightarrow> bool \<Rightarrow> PartColorData list \<Rightarrow> DrawableColorData list
     \<Rightarrow> error + PartColorData list \<times> DrawableColorData list" where
  "setOverrideColorForPartColors s partIndex value partColors drawableColors =
     (case at_update partColors partIndex (\<lambda>p. p\<lparr>isOverriddenP := value\<rparr>) of
        Inl e \<Rightarrow> Inl e
      | Inr ps \<Rightarrow>
          (case vec_at (partChildDrawables s) partIndex of
             None \<Rightarrow> Inl TypeError
           | Some children \<Rightarrow>
               (case vec_at ps partIndex of
                  None \<Rightarrow> Inl TypeError
                | Some p \<Rightarrow>
                    (case setOverrideColorForPartColors_children value p children drawableColors of
                       Inl e \<Rightarrow> Inl e
                     | Inr cs \<Rightarrow> Inr (ps, cs)))))"

definition setOverrideColorForPartMultiplyColors ::
  "CubismModel \<Rightarrow> int \<Rightarrow> bool \<Rightarrow> error + CubismModel" where
  "setOverrideColorForPartMultiplyColors s partIndex value =
     (case at_update (userPartMultiplyColors s) partIndex (\<lambda>p. p\<lparr>isOverriddenP := value\<rparr>) of
        Inl e \<Rightarrow> Inl e
      | Inr ps0 \<Rightarrow>
          (case setOverrideColorForPartColors s partIndex value ps0 (userMultiplyColors s) of
             Inl e \<Rightarrow> Inl e
           | Inr (ps, cs) \<Rightarrow> Inr (s\<lparr>userPartMultiplyColors := ps, userMultiplyColors := cs\<rparr>)))"

definition setOverrideColorForPartScreenColors ::
  "CubismModel \<Rightarrow> int \<Rightarrow> bool \<Rightarrow> error + CubismModel" where
  "setOverrideColorForPartScreenColors s partIndex value =
     (case at_update (userPartScreenColors s) partIndex (\<lambda>p. p\<lparr>isOverriddenP := value\<rparr>) of
        Inl e \<Rightarrow> Inl e
      | Inr ps0 \<Rightarrow>
          (case setOverrideColorForPartColors s partIndex value ps0 (userScreenColors s) of
             Inl e \<Rightarrow> Inl e
           | Inr (ps, cs) \<Rightarrow> Inr (s\<lparr>userPartScreenColors := ps, userScreenColors := cs\<rparr>)))"

subsection \<open>Culling\<close>

text \<open>
  \<^verbatim>\<open>Live2DCubismCore.Utils.hasIsDoubleSidedBit\<close> belongs to the deformation engine, not
  to this repository: the test of the "double-sided" constant bit-flag, which the
  engine keeps at bit 2. A flag byte that is \<^verbatim>\<open>undefined\<close> has no bit set.
\<close>

definition hasIsDoubleSidedBit :: "8 word option \<Rightarrow> bool" where
  "hasIsDoubleSidedBit bitfield = (case bitfield of None \<Rightarrow> False | Some w \<Rightarrow> bit w 2)"

definition getOverrideFlagForModelCullings :: "CubismModel \<Rightarrow> bool" where
  "getOverrideFlagForModelCullings s = isOverriddenCullings s"

definition setOverrideFlagForModelCullings :: "CubismModel \<Rightarrow> bool \<Rightarrow> CubismModel" where
  "setOverrideFlagForModelCullings s isOverriddenCullings' =
     s\<lparr>isOverriddenCullings := isOverriddenCullings'\<rparr>"

definition getOverrideFlagForDrawableCullings :: "CubismModel \<Rightarrow> int \<Rightarrow> error + bool" where
  "getOverrideFlagForDrawableCullings s drawableIndex =
     (case vec_at (userCullings s) drawableIndex of
        None \<Rightarrow> Inl TypeError
      | Some ref \<Rightarrow> Inr (isOverriddenC (cullingStore s ref)))"

definition setOverrideFlagForDrawableCullings ::
  "CubismModel \<Rightarrow> int \<Rightarrow> bool \<Rightarrow> error + CubismModel" where
  "setOverrideFlagForDrawableCullings s drawableIndex isOverriddenCullings' =
     (case vec_at (userCullings s) drawableIndex of
        None \<Rightarrow> Inl TypeError
      | Some ref \<Rightarrow>
          Inr (s\<lparr>cullingStore :=
                   (cullingStore s)
                     (ref := (cullingStore s ref)\<lparr>isOverriddenC := isOverriddenCullings'\<rparr>)\<rparr>))"

definition getDrawableCulling :: "CubismModel \<Rightarrow> int \<Rightarrow> error + bool" where
  "getDrawableCulling s drawableIndex =
     (case (if getOverrideFlagForModelCullings s then Inr True
            else getOverrideFlagForDrawableCullings s drawableIndex) of
        Inl e \<Rightarrow> Inl e
      | Inr True \<Rightarrow>
          (case vec_at (userCullings s) drawableIndex of
             None \<Rightarrow> Inl TypeError
           | Some ref \<Rightarrow> Inr (isCulling (cullingStore s ref)))
      | Inr False \<Rightarrow>
          Inr (\<not> hasIsDoubleSidedBit (vec_at (drawables_constantFlags (model s)) drawableIndex)))"

definition setDrawableCulling :: "CubismModel \<Rightarrow> int \<Rightarrow> bool \<Rightarrow> error + CubismModel" where
  "setDrawableCulling s drawableIndex isCulling' =
     (case vec_at (userCullings s) drawableIndex of
        None \<Rightarrow> Inl TypeError
      | Some ref \<Rightarrow>
          Inr (s\<lparr>cullingStore :=
                   (cullingStore s)(ref := (cullingStore s ref)\<lparr>isCulling := isCulling'\<rparr>)\<rparr>))"

subsection \<open>Index lookup\<close>

text \<open>
  The linear scans \<^verbatim>\<open>for (i = 0; i < count; ++i) if (id == ids.at(i)) return i\<close>:
  the first index below the count whose slot holds the handle.
\<close>

definition scanIds :: "CubismIdHandle list \<Rightarrow> nat \<Rightarrow> CubismIdHandle \<Rightarrow> nat option" where
  "scanIds ids n h = List.find (\<lambda>i. vec_at ids (int i) = Some h) [0..<n]"

definition getPartCount :: "CubismModel \<Rightarrow> nat" where
  "getPartCount s = parts_count (model s)"

definition getParameterCount :: "CubismModel \<Rightarrow> nat" where
  "getParameterCount s = parameters_count (model s)"

definition getDrawableCount :: "CubismModel \<Rightarrow> nat" where
  "getDrawableCount s = drawables_count (model s)"

text \<open>
  \<^verbatim>\<open>getPartIndex\<close> and \<^verbatim>\<open>getParameterIndex\<close> may add to the tables of absent
  identifiers: they return the index and the model. \<^verbatim>\<open>if (m.isExist(k)) return
  m.getValue(k)\<close> is one lookup.
\<close>

definition getPartIndex :: "CubismModel \<Rightarrow> CubismIdHandle \<Rightarrow> int \<times> CubismModel" where
  "getPartIndex s partId =
     (let partCount = parts_count (model s) in
      case scanIds (partIds s) partCount partId of
        Some partIndex \<Rightarrow> (int partIndex, s)
      | None \<Rightarrow>
          (case getValue (notExistPartId s) partId of
             Some partIndex \<Rightarrow> (partIndex, s)
           | None \<Rightarrow>
               (let partIndex = int partCount + int (getSize (notExistPartId s))
                in (partIndex,
                    s\<lparr>notExistPartId := setValue (notExistPartId s) partId partIndex,
                      notExistPartOpacities :=
                        appendKey (notExistPartOpacities s) partIndex\<rparr>))))"

definition getParameterIndex :: "CubismModel \<Rightarrow> CubismIdHandle \<Rightarrow> int \<times> CubismModel" where
  "getParameterIndex s parameterId =
     (let idCount = parameters_count (model s) in
      case scanIds (parameterIds s) idCount parameterId of
        Some parameterIndex \<Rightarrow> (int parameterIndex, s)
      | None \<Rightarrow>
          (case getValue (notExistParameterId s) parameterId of
             Some parameterIndex \<Rightarrow> (parameterIndex, s)
           | None \<Rightarrow>
               (let parameterIndex =
                      int (parameters_count (model s)) + int (getSize (notExistParameterId s))
                in (parameterIndex,
                    s\<lparr>notExistParameterId :=
                        setValue (notExistParameterId s) parameterId parameterIndex,
                      notExistParameterValues :=
                        appendKey (notExistParameterValues s) parameterIndex\<rparr>))))"

definition getDrawableIndex :: "CubismModel \<Rightarrow> CubismIdHandle \<Rightarrow> int" where
  "getDrawableIndex s drawableId =
     (let drawableCount = drawables_count (model s) in
      case scanIds (drawableIds s) drawableCount drawableId of
        Some drawableIndex \<Rightarrow> int drawableIndex
      | None \<Rightarrow> - 1)"

subsection \<open>Part opacities\<close>

definition setPartOpacityByIndex :: "CubismModel \<Rightarrow> int \<Rightarrow> num \<Rightarrow> error + CubismModel" where
  "setPartOpacityByIndex s partIndex opacity =
     (if isExist (notExistPartOpacities s) partIndex then
        Inr (s\<lparr>notExistPartOpacities := setValue (notExistPartOpacities s) partIndex opacity\<rparr>)
      else if \<not> (0 \<le> partIndex \<and> partIndex < int (getPartCount s)) then Inl AssertionFailed
      else
        Inr (s\<lparr>model := (model s)\<lparr>parts_opacities :=
                                     f32_set (parts_opacities (model s)) partIndex opacity\<rparr>\<rparr>))"

definition setPartOpacityById :: "CubismModel \<Rightarrow> CubismIdHandle \<Rightarrow> num \<Rightarrow> error + CubismModel" where
  "setPartOpacityById s partId opacity =
     (let (index, s1) = getPartIndex s partId in
      if index < 0 then Inr s1
      else setPartOpacityByIndex s1 index opacity)"

definition getPartOpacityByIndex :: "CubismModel \<Rightarrow> int \<Rightarrow> error + num" where
  "getPartOpacityByIndex s partIndex =
     (case getValue (notExistPartOpacities s) partIndex of
        Some v \<Rightarrow> Inr v
      | None \<Rightarrow>
          if \<not> (0 \<le> partIndex \<and> partIndex < int (getPartCount s)) then Inl AssertionFailed
          else Inr (f32_get (parts_opacities (model s)) partIndex))"

definition getPartOpacityById ::
  "CubismModel \<Rightarrow> CubismIdHandle \<Rightarrow> error + num \<times> CubismModel" where
  "getPartOpacityById s partId =
     (let (index, s1) = getPartIndex s partId in
      if index < 0 then Inr (Fin 0, s1)
      else (case getPartOpacityByIndex s1 index of
              Inl e \<Rightarrow> Inl e
            | Inr v \<Rightarrow> Inr (v, s1)))"

subsection \<open>Parameter values\<close>

definition getParameterMaximumValue :: "CubismModel \<Rightarrow> int \<Rightarrow> num" where
  "getParameterMaximumValue s parameterIndex =
     f32_get (parameters_maximumValues (model s)) parameterIndex"

definition getParameterMinimumValue :: "CubismModel \<Rightarrow> int \<Rightarrow> num" where
  "getParameterMinimumValue s parameterIndex =
     f32_get (parameters_minimumValues (model s)) parameterIndex"

definition getParameterRepeats :: "CubismModel \<Rightarrow> int \<Rightarrow> bool" where
  \<comment> \<open>\<^verbatim>\<open>repeats[parameterIndex] != 0\<close>; \<^verbatim>\<open>undefined != 0\<close> holds\<close>
  "getParameterRepeats s parameterIndex =
     (vec_at (parameters_repeats (model s)) parameterIndex \<noteq> Some 0)"


definition setOverrideFlagForModelParameterRepeat :: "CubismModel \<Rightarrow> bool \<Rightarrow> CubismModel" where
  "setOverrideFlagForModelParameterRepeat s isRepeat' = s\<lparr>isOverriddenParameterRepeat := isRepeat'\<rparr>"

definition getOverrideFlagForParameterRepeat :: "CubismModel \<Rightarrow> int \<Rightarrow> error + bool" where
  "getOverrideFlagForParameterRepeat s parameterIndex =
     (case vec_at (userParameterRepeatDataList s) parameterIndex of
        None \<Rightarrow> Inl TypeError
      | Some d \<Rightarrow> Inr (isOverriddenR d))"

definition setOverrideFlagForParameterRepeat ::
  "CubismModel \<Rightarrow> int \<Rightarrow> bool \<Rightarrow> error + CubismModel" where
  "setOverrideFlagForParameterRepeat s parameterIndex value =
     (case at_update (userParameterRepeatDataList s) parameterIndex
             (\<lambda>d. d\<lparr>isOverriddenR := value\<rparr>) of
        Inl e \<Rightarrow> Inl e
      | Inr ds \<Rightarrow> Inr (s\<lparr>userParameterRepeatDataList := ds\<rparr>))"

definition getRepeatFlagForParameterRepeat :: "CubismModel \<Rightarrow> int \<Rightarrow> error + bool" where
  "getRepeatFlagForParameterRepeat s parameterIndex =
     (case vec_at (userParameterRepeatDataList s) parameterIndex of
        None \<Rightarrow> Inl TypeError
      | Some d \<Rightarrow> Inr (isParameterRepeated d))"

definition setRepeatFlagForParameterRepeat ::
  "CubismModel \<Rightarrow> int \<Rightarrow> bool \<Rightarrow> error + CubismModel" where
  "setRepeatFlagForParameterRepeat s parameterIndex value =
     (case at_update (userParameterRepeatDataList s) parameterIndex
             (\<lambda>d. d\<lparr>isParameterRepeated := value\<rparr>) of
        Inl e \<Rightarrow> Inl e
      | Inr ds \<Rightarrow> Inr (s\<lparr>userParameterRepeatDataList := ds\<rparr>))"

definition getParameterValueByIndex :: "CubismModel \<Rightarrow> int \<Rightarrow> error + num" where
  "getParameterValueByIndex s parameterIndex =
     (case getValue (notExistParameterValues s) parameterIndex of
        Some v \<Rightarrow> Inr v
      | None \<Rightarrow>
          if \<not> (0 \<le> parameterIndex \<and> parameterIndex < int (getParameterCount s))
          then Inl AssertionFailed
          else Inr (f32_get (parameters_values (model s)) parameterIndex))"

definition isRepeat :: "CubismModel \<Rightarrow> int \<Rightarrow> error + bool" where
  "isRepeat s parameterIndex =
     (if isExist (notExistParameterValues s) parameterIndex then Inr False
      else if \<not> (0 \<le> parameterIndex \<and> parameterIndex < int (getParameterCount s))
      then Inl AssertionFailed
      else
        (case (if isOverriddenParameterRepeat s then Inr True
               else getOverrideFlagForParameterRepeat s parameterIndex) of
           Inl e \<Rightarrow> Inl e
         | Inr True \<Rightarrow> getRepeatFlagForParameterRepeat s parameterIndex
         | Inr False \<Rightarrow> Inr (getParameterRepeats s parameterIndex)))"

definition getParameterRepeatValue :: "CubismModel \<Rightarrow> int \<Rightarrow> num \<Rightarrow> error + num" where
  "getParameterRepeatValue s parameterIndex value =
     (if isExist (notExistParameterValues s) parameterIndex then Inr value
      else if \<not> (0 \<le> parameterIndex \<and> parameterIndex < int (getParameterCount s))
      then Inl AssertionFailed
      else
        (let maxValue = f32_get (parameters_maximumValues (model s)) parameterIndex;
             minValue = f32_get (parameters_minimumValues (model s)) parameterIndex;
             valueSize = maxValue - minValue;
             value1 =
               (if maxValue < value then
                  (let overValue = CubismMath_mod (value - maxValue) valueSize
                   in if \<not> Number_isNaN overValue then minValue + overValue else maxValue)
                else value);
             value2 =
               (if value1 < minValue then
                  (let overValue = CubismMath_mod (minValue - value1) valueSize
                   in if \<not> Number_isNaN overValue then maxValue - overValue else minValue)
                else value1)
         in Inr value2))"

definition getParameterClampValue :: "CubismModel \<Rightarrow> int \<Rightarrow> num \<Rightarrow> error + num" where
  "getParameterClampValue s parameterIndex value =
     (if isExist (notExistParameterValues s) parameterIndex then Inr value
      else if \<not> (0 \<le> parameterIndex \<and> parameterIndex < int (getParameterCount s))
      then Inl AssertionFailed
      else
        (let maxValue = f32_get (parameters_maximumValues (model s)) parameterIndex;
             minValue = f32_get (parameters_minimumValues (model s)) parameterIndex
         in Inr (CubismMath_clamp value minValue maxValue)))"

text \<open>The blend \<^verbatim>\<open>weight == 1 ? value : old * (1 - weight) + value * weight\<close>.\<close>

definition blend :: "num \<Rightarrow> num \<Rightarrow> num \<Rightarrow> num" where
  "blend old value weight =
     (if weight = Fin 1 then value else old * (Fin 1 - weight) + value * weight)"

definition setParameterValueByIndex ::
  "CubismModel \<Rightarrow> int \<Rightarrow> num \<Rightarrow> num \<Rightarrow> error + CubismModel" where
  "setParameterValueByIndex s parameterIndex value weight =
     (case getValue (notExistParameterValues s) parameterIndex of
        Some old \<Rightarrow>
          Inr (s\<lparr>notExistParameterValues :=
                   setValue (notExistParameterValues s) parameterIndex (blend old value weight)\<rparr>)
      | None \<Rightarrow>
          if \<not> (0 \<le> parameterIndex \<and> parameterIndex < int (getParameterCount s))
          then Inl AssertionFailed
          else
            (case isRepeat s parameterIndex of
               Inl e \<Rightarrow> Inl e
             | Inr rep \<Rightarrow>
                 (case (if rep then getParameterRepeatValue s parameterIndex value
                        else getParameterClampValue s parameterIndex value) of
                    Inl e \<Rightarrow> Inl e
                  | Inr value' \<Rightarrow>
                      Inr (s\<lparr>model := (model s)\<lparr>parameters_values :=
                             f32_set (parameters_values (model s)) parameterIndex
                               (blend (f32_get (parameters_values (model s)) parameterIndex)
                                  value' weight)\<rparr>\<rparr>))))"

text \<open>The weight of \<^verbatim>\<open>setParameterValueByIndex\<close> defaults to 1.\<close>

definition addParameterValueByIndex ::
  "CubismModel \<Rightarrow> int \<Rightarrow> num \<Rightarrow> num \<Rightarrow> error + CubismModel" where
  "addParameterValueByIndex s parameterIndex value weight =
     (case getParameterValueByIndex s parameterIndex of
        Inl e \<Rightarrow> Inl e
      | Inr v \<Rightarrow> setParameterValueByIndex s parameterIndex (v + value * weight) (Fin 1))"

definition multiplyParameterValueByIndex ::
  "CubismModel \<Rightarrow> int \<Rightarrow> num \<Rightarrow> num \<Rightarrow> error + CubismModel" where
  "multiplyParameterValueByIndex s parameterIndex value weight =
     (case getParameterValueByIndex s parameterIndex of
        Inl e \<Rightarrow> Inl e
      | Inr v \<Rightarrow>
          setParameterValueByIndex s parameterIndex
            (v * (Fin 1 + (value - Fin 1) * weight)) (Fin 1))"

definition setParameterValueById ::
  "CubismModel \<Rightarrow> CubismIdHandle \<Rightarrow> num \<Rightarrow> num \<Rightarrow> error + CubismModel" where
  "setParameterValueById s parameterId value weight =
     (let (index, s1) = getParameterIndex s parameterId
      in setParameterValueByIndex s1 index value weight)"

definition getParameterValueById ::
  "CubismModel \<Rightarrow> CubismIdHandle \<Rightarrow> error + num \<times> CubismModel" where
  "getParameterValueById s parameterId =
     (let (parameterIndex, s1) = getParameterIndex s parameterId
      in case getParameterValueByIndex s1 parameterIndex of
           Inl e \<Rightarrow> Inl e
         | Inr v \<Rightarrow> Inr (v, s1))"

subsection \<open>Saving and loading the parameter values\<close>

text \<open>
  \<^verbatim>\<open>saveParameters\<close> reads the size of the side buffer once, before its loop; a round
  below that size overwrites a slot, a later round pushes.
\<close>

definition saveParameters :: "CubismModel \<Rightarrow> CubismModel" where
  "saveParameters s =
     (let parameterCount = parameters_count (model s);
          savedParameterCount = length (savedParameters s)
      in s\<lparr>savedParameters :=
             fold (\<lambda>i saved.
                     if i < savedParameterCount
                     then saved[i := f32_get (parameters_values (model s)) (int i)]
                     else saved @ [f32_get (parameters_values (model s)) (int i)])
               [0..<parameterCount] (savedParameters s)\<rparr>)"

definition loadParameters :: "CubismModel \<Rightarrow> CubismModel" where
  "loadParameters s =
     (let parameterCount = parameters_count (model s);
          savedParameterCount = length (savedParameters s);
          parameterCount' =
            (if parameterCount > savedParameterCount then savedParameterCount
             else parameterCount)
      in s\<lparr>model := (model s)\<lparr>parameters_values :=
             fold (\<lambda>i values.
                     f32_set values (int i)
                       (case vec_at (savedParameters s) (int i) of
                          None \<Rightarrow> Undefined
                        | Some v \<Rightarrow> v))
               [0..<parameterCount'] (parameters_values (model s))\<rparr>\<rparr>)"

subsection \<open>Initialised models\<close>

text \<open>
  The snapshot of a loaded asset: every array has the length its count announces (the
  colour arrays four entries per drawable), and the parent of a drawable is a part of
  the asset or negative.
\<close>

definition wf_Model :: "Model \<Rightarrow> bool" where
  "wf_Model m =
     (length (parameters_ids m) = parameters_count m \<and>
      length (parameters_values m) = parameters_count m \<and>
      length (parameters_minimumValues m) = parameters_count m \<and>
      length (parameters_maximumValues m) = parameters_count m \<and>
      length (parameters_repeats m) = parameters_count m \<and>
      length (parts_ids m) = parts_count m \<and>
      length (parts_opacities m) = parts_count m \<and>
      length (drawables_ids m) = drawables_count m \<and>
      length (drawables_constantFlags m) = drawables_count m \<and>
      length (drawables_parentPartIndices m) = drawables_count m \<and>
      length (drawables_multiplyColors m) = 4 * drawables_count m \<and>
      length (drawables_screenColors m) = 4 * drawables_count m \<and>
      list_all (\<lambda>p. p < int (parts_count m)) (drawables_parentPartIndices m))"

text \<open>
  The synthetic indices handed out so far: the count of real entities plus the rank of
  the insertion.
\<close>

definition absentIndices :: "nat \<Rightarrow> nat \<Rightarrow> int list" where
  "absentIndices count n = map (\<lambda>k. int count + int k) [0..<n]"

text \<open>
  What \<^verbatim>\<open>initialize\<close> establishes and the methods below keep: one override record
  per parameter, part and drawable; child drawables that are drawables; and absent
  tables in which the \<open>k\<close>-th identifier has the index \<open>count + k\<close> and a value slot.
\<close>

definition initialized :: "CubismModel \<Rightarrow> bool" where
  "initialized s =
     (wf_Model (model s) \<and>
      length (parameterIds s) = parameters_count (model s) \<and>
      length (userParameterRepeatDataList s) = parameters_count (model s) \<and>
      length (partIds s) = parts_count (model s) \<and>
      length (userPartMultiplyColors s) = parts_count (model s) \<and>
      length (userPartScreenColors s) = parts_count (model s) \<and>
      length (partChildDrawables s) = parts_count (model s) \<and>
      length (drawableIds s) = drawables_count (model s) \<and>
      length (userMultiplyColors s) = drawables_count (model s) \<and>
      length (userScreenColors s) = drawables_count (model s) \<and>
      length (userCullings s) = drawables_count (model s) \<and>
      list_all (list_all (\<lambda>d. 0 \<le> d \<and> d < int (drawables_count (model s))))
        (partChildDrawables s) \<and>
      map snd (notExistParameterId s)
        = absentIndices (parameters_count (model s)) (length (notExistParameterId s)) \<and>
      map fst (notExistParameterValues s) = map snd (notExistParameterId s) \<and>
      map snd (notExistPartId s)
        = absentIndices (parts_count (model s)) (length (notExistPartId s)) \<and>
      map fst (notExistPartOpacities s) = map snd (notExistPartId s))"

text \<open>The slots of \<^verbatim>\<open>_userCullings\<close> all hold one reference.\<close>

definition sharedCulling :: "CubismModel \<Rightarrow> bool" where
  "sharedCulling s = (\<forall>x \<in> set (userCullings s). \<forall>y \<in> set (userCullings s). x = y)"

text \<open>An identifier of the loaded asset: one of the first \<open>count\<close> authored handles.\<close>

definition knownParameter :: "CubismModel \<Rightarrow> CubismIdHandle \<Rightarrow> bool" where
  "knownParameter s h = (h \<in> set (take (parameters_count (model s)) (parameterIds s)))"

definition knownPart :: "CubismModel \<Rightarrow> CubismIdHandle \<Rightarrow> bool" where
  "knownPart s h = (h \<in> set (take (parts_count (model s)) (partIds s)))"

definition knownDrawable :: "CubismModel \<Rightarrow> CubismIdHandle \<Rightarrow> bool" where
  "knownDrawable s h = (h \<in> set (take (drawables_count (model s)) (drawableIds s)))"

subsection \<open>The formulas of the specification\<close>

text \<open>
  The wrap of a value beyond a bound, as the specification words it: with
  \<open>span = max - min\<close>, a value above \<open>max\<close> becomes \<open>min + ((value - max) mod span)\<close>, a
  value below \<open>min\<close> becomes \<open>max - ((min - value) mod span)\<close>, and "if the modulo
  result is not a finite number (degenerate span)" the exceeded bound.
\<close>

definition wrapAbove :: "num \<Rightarrow> num \<Rightarrow> num \<Rightarrow> num" where
  "wrapAbove minValue maxValue value =
     (case CubismMath_mod (value - maxValue) (maxValue - minValue) of
        Fin x \<Rightarrow> minValue + Fin x
      | _ \<Rightarrow> maxValue)"

definition wrapBelow :: "num \<Rightarrow> num \<Rightarrow> num \<Rightarrow> num" where
  "wrapBelow minValue maxValue value =
     (case CubismMath_mod (minValue - value) (maxValue - minValue) of
        Fin x \<Rightarrow> maxValue - Fin x
      | _ \<Rightarrow> minValue)"

text \<open>
  The model after the number \<open>v\<close> has been stored as the value of the in-asset parameter
  \<open>i\<close>: the entry of the array is the single-precision value nearest to \<open>v\<close>.
\<close>

definition withParameterValue :: "CubismModel \<Rightarrow> int \<Rightarrow> num \<Rightarrow> CubismModel" where
  "withParameterValue s i v =
     s\<lparr>model := (model s)\<lparr>parameters_values :=
                               (parameters_values (model s))[nat i := to_f32 v]\<rparr>\<rparr>"

subsection \<open>A small asset\<close>

text \<open>
  Two parameters (an angle in \<open>[-30, 30]\<close> that clamps, a ring in \<open>[0, 10]\<close> authored to
  repeat), one part, and two drawables of which the first is a child of the part and
  the second is double-sided, has no parent and has authored colours of its own. \<open>demo\<close> is the model that the
  constructor and \<^verbatim>\<open>initialize\<close> make of it.
\<close>

definition demo_Model :: Model where
  "demo_Model =
     \<lparr>parameters_count = 2,
      parameters_ids = [''ParamAngleX'', ''ParamRing''],
      parameters_values = map to_f32 [Fin 0, Fin 0],
      parameters_minimumValues = map to_f32 [Fin (- 30), Fin 0],
      parameters_maximumValues = map to_f32 [Fin 30, Fin 10],
      parameters_repeats = [0, 1],
      parts_count = 1,
      parts_ids = [''PartBody''],
      parts_opacities = map to_f32 [Fin 1],
      drawables_count = 2,
      drawables_ids = [''ArtMesh0'', ''ArtMesh1''],
      drawables_constantFlags = [0, 4],
      drawables_parentPartIndices = [0, - 1],
      drawables_multiplyColors =
        map to_f32 [Fin 1, Fin 1, Fin 1, Fin 1, Fin (1 / 2), Fin (1 / 4), Fin (1 / 8), Fin 1],
      drawables_screenColors =
        map to_f32 [Fin 0, Fin 0, Fin 0, Fin 1, Fin (1 / 8), Fin (1 / 4), Fin (1 / 2), Fin 0]\<rparr>"

definition demo :: CubismModel where
  "demo =
     \<lparr>model = demo_Model,
      savedParameters = [],
      parameterIds = [''ParamAngleX'', ''ParamRing''],
      partIds = [''PartBody''],
      drawableIds = [''ArtMesh0'', ''ArtMesh1''],
      isOverriddenParameterRepeat = True,
      isOverriddenModelMultiplyColors = False,
      isOverriddenModelScreenColors = False,
      isOverriddenCullings = False,
      modelOpacity = Fin 1,
      userParameterRepeatDataList =
        [\<lparr>isOverriddenR = False, isParameterRepeated = False\<rparr>,
         \<lparr>isOverriddenR = False, isParameterRepeated = False\<rparr>],
      userMultiplyColors =
        [\<lparr>isOverriddenD = False, colorD = white\<rparr>, \<lparr>isOverriddenD = False, colorD = white\<rparr>],
      userScreenColors =
        [\<lparr>isOverriddenD = False, colorD = black\<rparr>, \<lparr>isOverriddenD = False, colorD = black\<rparr>],
      userCullings = [0, 0],
      cullingStore =
        (\<lambda>_. \<lparr>isOverriddenC = False, isCulling = False\<rparr>)
          (0 := \<lparr>isOverriddenC = False, isCulling = False\<rparr>),
      cullingCount = 1,
      userPartMultiplyColors = [\<lparr>isOverriddenP = False, colorP = white\<rparr>],
      userPartScreenColors = [\<lparr>isOverriddenP = False, colorP = black\<rparr>],
      partChildDrawables = [[0]],
      notExistPartId = [],
      notExistParameterId = [],
      notExistParameterValues = [],
      notExistPartOpacities = []\<rparr>"

subsection \<open>The topology that \<^verbatim>\<open>initialize\<close> builds\<close>

text \<open>
  The child lists after the loop over the drawables \<open>ks\<close>, started from the lists
  \<open>pcd\<close>: the loop of \<open>initDrawables\<close> without its other pushes and without its
  errors.
\<close>

fun childrenAfter :: "int list \<Rightarrow> nat list \<Rightarrow> int list list \<Rightarrow> int list list" where
  "childrenAfter parents [] pcd = pcd"
| "childrenAfter parents (i # ks) pcd =
     (case vec_at parents (int i) of
        None \<Rightarrow> childrenAfter parents ks pcd
      | Some p \<Rightarrow>
          if 0 \<le> p then childrenAfter parents ks (pcd[nat p := pcd ! nat p @ [int i]])
          else childrenAfter parents ks pcd)"

subsection \<open>Auxiliary notions for the statements\<close>

text \<open>
  What one round of the loop of \<^verbatim>\<open>setOverrideColorForPartColors\<close> does to the record of
  a child: the flag is written, the colour of the part only when the flag is true.
\<close>

definition cascaded :: "bool \<Rightarrow> PartColorData \<Rightarrow> DrawableColorData \<Rightarrow> DrawableColorData" where
  "cascaded value p d =
     (if value
      then setColorD (colR (colorP p)) (colG (colorP p)) (colB (colorP p)) (colA (colorP p))
             (d\<lparr>isOverriddenD := value\<rparr>)
      else d\<lparr>isOverriddenD := value\<rparr>)"

text \<open>The records of the drawables after each child in \<open>children\<close> has been cascaded to.\<close>

definition cascadedAll ::
  "bool \<Rightarrow> PartColorData \<Rightarrow> int list \<Rightarrow> DrawableColorData list \<Rightarrow> DrawableColorData list" where
  "cascadedAll value p children cs =
     map (\<lambda>k. if int k \<in> set children then cascaded value p (cs ! k) else cs ! k)
       [0..<length cs]"

text \<open>
  \<^verbatim>\<open>set(get(i))\<close> with a function applied in between, in the words of the
  specification for \<^verbatim>\<open>addValue\<close> and \<^verbatim>\<open>multiplyValue\<close>: "defined purely in terms of
  getValue + arithmetic + setValue", the weight of the write being the default 1.
\<close>

definition setOfGet :: "CubismModel \<Rightarrow> int \<Rightarrow> (num \<Rightarrow> num) \<Rightarrow> error + CubismModel" where
  "setOfGet s i f =
     (case getParameterValueByIndex s i of
        Inl e \<Rightarrow> Inl e
      | Inr x \<Rightarrow> setParameterValueByIndex s i (f x) (Fin 1))"

text \<open>The small asset after the part has been painted red, and after its override has
  then been enabled and disabled again.\<close>

definition red :: CubismTextureColor where
  "red = \<lparr>colR = Fin 1, colG = Fin 0, colB = Fin 0, colA = Fin 1\<rparr>"

definition demo_painted :: CubismModel where
  "demo_painted = demo\<lparr>userPartMultiplyColors := [\<lparr>isOverriddenP = False, colorP = red\<rparr>]\<rparr>"

definition demo_enabled :: CubismModel where
  "demo_enabled =
     demo\<lparr>userPartMultiplyColors := [\<lparr>isOverriddenP = True, colorP = red\<rparr>],
          userMultiplyColors :=
            [\<lparr>isOverriddenD = True, colorD = red\<rparr>, \<lparr>isOverriddenD = False, colorD = white\<rparr>]\<rparr>"

definition demo_disabled :: CubismModel where
  "demo_disabled =
     demo\<lparr>userPartMultiplyColors := [\<lparr>isOverriddenP = False, colorP = red\<rparr>],
          userMultiplyColors :=
            [\<lparr>isOverriddenD = False, colorD = red\<rparr>, \<lparr>isOverriddenD = False, colorD = white\<rparr>]\<rparr>"

text \<open>
  The two wraps one after the other, as \<^verbatim>\<open>getParameterRepeatValue\<close> applies them: the
  test against the minimum is made on the result of the test against the maximum.
\<close>

definition wrapValue :: "num \<Rightarrow> num \<Rightarrow> num \<Rightarrow> num" where
  "wrapValue minValue maxValue value =
     (let value1 = (if maxValue < value then wrapAbove minValue maxValue value else value)
      in if value1 < minValue then wrapBelow minValue maxValue value1 else value1)"

text \<open>
  \<^verbatim>\<open>getPartIndex\<close> and \<^verbatim>\<open>getParameterIndex\<close> are one algorithm on different fields: the
  scan of the authored handles, then the table of absent identifiers, then the
  allocation. \<open>lookupIndex\<close> is that algorithm on the count, the handles and the two
  tables (\<open>getPartIndex_lookup\<close>, \<open>getParameterIndex_lookup\<close>); \<open>absentTables\<close> is
  what \<open>initialized\<close> says of a pair of tables.
\<close>

definition lookupIndex ::
  "nat \<Rightarrow> CubismIdHandle list \<Rightarrow> (CubismIdHandle, int) csmMap \<Rightarrow> (int, num) csmMap
     \<Rightarrow> CubismIdHandle \<Rightarrow> int \<times> (CubismIdHandle, int) csmMap \<times> (int, num) csmMap" where
  "lookupIndex count ids idm vals h =
     (case scanIds ids count h of
        Some k \<Rightarrow> (int k, idm, vals)
      | None \<Rightarrow>
          (case getValue idm h of
             Some idx \<Rightarrow> (idx, idm, vals)
           | None \<Rightarrow>
               (let idx = int count + int (getSize idm)
                in (idx, setValue idm h idx, appendKey vals idx))))"

definition absentTables ::
  "nat \<Rightarrow> (CubismIdHandle, int) csmMap \<Rightarrow> (int, num) csmMap \<Rightarrow> bool" where
  "absentTables count idm vals =
     (map snd idm = absentIndices count (length idm) \<and> map fst vals = map snd idm)"

text \<open>
  The small asset with a red multiply colour, a blue screen colour and culling stored
  as the override values of its second drawable: once with the three model-wide flags
  set and the drawable's own flags off, once the other way round.
\<close>

definition blue :: CubismTextureColor where
  "blue = \<lparr>colR = Fin 0, colG = Fin 0, colB = Fin 1, colA = Fin 1\<rparr>"

definition demo_modelwide :: CubismModel where
  "demo_modelwide =
     demo\<lparr>isOverriddenModelMultiplyColors := True,
          isOverriddenModelScreenColors := True,
          isOverriddenCullings := True,
          userMultiplyColors :=
            [\<lparr>isOverriddenD = False, colorD = white\<rparr>, \<lparr>isOverriddenD = False, colorD = red\<rparr>],
          userScreenColors :=
            [\<lparr>isOverriddenD = False, colorD = black\<rparr>, \<lparr>isOverriddenD = False, colorD = blue\<rparr>],
          cullingStore := (\<lambda>_. \<lparr>isOverriddenC = False, isCulling = True\<rparr>)\<rparr>"

definition demo_own :: CubismModel where
  "demo_own =
     demo\<lparr>userMultiplyColors :=
            [\<lparr>isOverriddenD = False, colorD = white\<rparr>, \<lparr>isOverriddenD = True, colorD = red\<rparr>],
          userScreenColors :=
            [\<lparr>isOverriddenD = False, colorD = black\<rparr>, \<lparr>isOverriddenD = True, colorD = blue\<rparr>],
          cullingStore := (\<lambda>_. \<lparr>isOverriddenC = True, isCulling = True\<rparr>)\<rparr>"


text \<open>The small asset after the number \<open>v\<close> has been stored as the opacity of its part.\<close>

definition demo_faded :: "num \<Rightarrow> CubismModel" where
  "demo_faded v = demo\<lparr>model := demo_Model\<lparr>parts_opacities := [to_f32 v]\<rparr>\<rparr>"

section \<open>Properties\<close>

subsection \<open>Single-precision values\<close>

lemma floor_log2_iff:
  assumes "0 < x"
  shows "\<lfloor>log 2 x\<rfloor> = k \<longleftrightarrow> 2 powi k \<le> x \<and> x < 2 powi (k + 1)"
proof -
  have e: "real_of_int k + 1 = real_of_int (k + 1)" by simp
  have "(2::real) powr real_of_int k = 2 powi k"
       "(2::real) powr real_of_int (k + 1) = 2 powi (k + 1)"
    by (rule powr_real_of_int', simp, simp)+
  thus ?thesis using floor_log_eq_powr_iff[of x 2 k] assms unfolding e by simp
qed

lemma binade_normal:
  assumes "2 powi E \<le> \<bar>x\<bar>" "\<bar>x\<bar> < 2 powi (E + 1)" "- 126 \<le> E"
  shows "binade x = E"
proof -
  have pos: "0 < \<bar>x\<bar>" using assms(1) zero_less_power_int[of "2::real" E] by linarith
  have "\<lfloor>log 2 \<bar>x\<bar>\<rfloor> = E"
    using assms(1,2) floor_log2_iff[OF pos] by blast
  thus ?thesis using assms(3) by (simp add: binade_def)
qed

lemma binade_cases:
  assumes "x \<noteq> 0"
  shows "(2 powi binade x \<le> \<bar>x\<bar> \<and> \<bar>x\<bar> < 2 powi (binade x + 1)) \<or>
         (binade x = - 126 \<and> \<bar>x\<bar> < 2 powi (- 126))"
proof -
  have pos: "0 < \<bar>x\<bar>" using assms(1) by simp
  define k where "k = \<lfloor>log 2 \<bar>x\<bar>\<rfloor>"
  have b: "2 powi k \<le> \<bar>x\<bar>" "\<bar>x\<bar> < 2 powi (k + 1)"
    using floor_log2_iff[OF pos, of k] k_def by simp_all
  show ?thesis
  proof (cases "- 126 \<le> k")
    case True
    hence "binade x = k" by (simp add: binade_def k_def)
    thus ?thesis using b by simp
  next
    case False
    hence "k + 1 \<le> - 126" by simp
    hence "(2::real) powi (k + 1) \<le> 2 powi (- 126)" by (intro power_int_increasing) simp_all
    hence "\<bar>x\<bar> < 2 powi (- 126)" using b(2) by linarith
    moreover have "binade x = - 126" using False by (simp add: binade_def k_def)
    ultimately show ?thesis by blast
  qed
qed

lemma binade_subnormal:
  assumes "x \<noteq> 0" "\<bar>x\<bar> < 2 powi (- 126)"
  shows "binade x = - 126"
proof -
  have "\<not> (2 powi binade x \<le> \<bar>x\<bar> \<and> binade x \<noteq> - 126)"
  proof
    assume a: "2 powi binade x \<le> \<bar>x\<bar> \<and> binade x \<noteq> - 126"
    have "- 126 \<le> binade x" by (simp add: binade_def)
    hence "(2::real) powi (- 126) \<le> 2 powi binade x" by (intro power_int_increasing) simp_all
    thus False using a assms(2) by linarith
  qed
  thus ?thesis using binade_cases[OF assms(1)] by blast
qed

lemma roundTiesToEven_of_int: "roundTiesToEven (of_int k) = k"
  by (simp add: roundTiesToEven_def)

lemma roundTiesToEven_ge:
  assumes "of_int n \<le> q" shows "n \<le> roundTiesToEven q"
proof -
  have "n \<le> \<lfloor>q\<rfloor>" using assms by (simp add: le_floor_iff)
  thus ?thesis by (auto simp add: roundTiesToEven_def Let_def)
qed

lemma roundTiesToEven_le:
  assumes "q \<le> of_int n" shows "roundTiesToEven q \<le> n"
proof (cases "q = of_int n")
  case True thus ?thesis by (simp add: roundTiesToEven_of_int)
next
  case False
  hence "q < of_int n" using assms by simp
  hence "\<lfloor>q\<rfloor> < n" by (simp add: floor_less_iff)
  thus ?thesis by (auto simp add: roundTiesToEven_def Let_def)
qed

lemma fround_real_grid:
  assumes "y = of_int k * 2 powi (binade y - 23)"
  shows "fround_real y = y"
proof -
  have "y / 2 powi (binade y - 23) = of_int k"
    using assms by (metis nonzero_mult_div_cancel_right power_int_eq_0_iff zero_neq_numeral)
  thus ?thesis using assms by (simp add: fround_real_def Let_def roundTiesToEven_of_int)
qed

lemma fround_real_idem:
  assumes "x \<noteq> 0" "fround_real x \<noteq> 0"
  shows "fround_real (fround_real x) = fround_real x"
proof -
  define E where "E = binade x"
  define Q :: real where "Q = 2 powi (E - 23)"
  define q where "q = x / Q"
  define k where "k = roundTiesToEven q"
  define y where "y = fround_real x"
  have Qpos: "0 < Q" by (simp add: Q_def zero_less_power_int)
  have y: "y = of_int k * Q" by (simp add: y_def fround_real_def Let_def k_def q_def Q_def E_def)
  have k0: "k \<noteq> 0" using assms(2) y y_def by auto
  have ay: "\<bar>y\<bar> = of_int \<bar>k\<bar> * Q" using y Qpos by (simp add: abs_mult)
  have E126: "- 126 \<le> E" by (simp add: E_def binade_def)
  have QE: "2 powi E = 2 ^ 23 * Q" "2 powi (E + 1) = 2 ^ 24 * Q"
    by (simp_all add: Q_def power_int_diff power_int_add)
  have ub: "\<bar>x\<bar> < 2 powi (E + 1)"
    using binade_cases[OF assms(1)] E126 unfolding E_def[symmetric]
    by (auto simp add: power_int_add zero_less_power_int intro: less_trans)
  have "\<bar>q\<bar> < 2 ^ 24" using ub Qpos by (simp add: q_def QE abs_divide pos_divide_less_eq)
  hence "q \<le> of_int (2 ^ 24)" "of_int (- (2 ^ 24)) \<le> q" by simp_all
  hence "k \<le> 2 ^ 24" "- (2 ^ 24) \<le> k"
    unfolding k_def using roundTiesToEven_le roundTiesToEven_ge by blast+
  hence kub: "\<bar>k\<bar> \<le> 2 ^ 24" by simp
  have "binade y = E \<or> (binade y = E + 1 \<and> \<bar>k\<bar> = 2 ^ 24)"
  proof (cases "2 powi E \<le> \<bar>x\<bar>")
    case True
    hence "2 ^ 23 \<le> \<bar>q\<bar>" using Qpos by (simp add: q_def QE abs_divide pos_le_divide_eq)
    hence "of_int (2 ^ 23) \<le> q \<or> q \<le> of_int (- (2 ^ 23))" by auto
    hence "2 ^ 23 \<le> k \<or> k \<le> - (2 ^ 23)"
      unfolding k_def using roundTiesToEven_le roundTiesToEven_ge by blast
    hence klb: "2 ^ 23 \<le> \<bar>k\<bar>" by auto
    show ?thesis
    proof (cases "\<bar>k\<bar> = 2 ^ 24")
      case True
      hence "\<bar>y\<bar> = 2 powi (E + 1)" using ay QE by simp
      hence "binade y = E + 1" using E126 by (intro binade_normal) (simp_all add: power_int_add)
      thus ?thesis using True by simp
    next
      case False
      hence "\<bar>k\<bar> < 2 ^ 24" using kub by simp
      hence "real_of_int \<bar>k\<bar> < 2 ^ 24" "2 ^ 23 \<le> real_of_int \<bar>k\<bar>" using klb
        by (metis of_int_less_iff of_int_numeral of_int_power, metis of_int_le_iff of_int_numeral of_int_power klb)
      hence "2 powi E \<le> \<bar>y\<bar>" "\<bar>y\<bar> < 2 powi (E + 1)" using Qpos unfolding ay QE by simp_all
      thus ?thesis using E126 binade_normal by blast
    qed
  next
    case False
    hence E: "E = - 126" and xs: "\<bar>x\<bar> < 2 powi (- 126)"
      using binade_cases[OF assms(1)] unfolding E_def[symmetric] by auto
    hence "\<bar>q\<bar> < 2 ^ 23" using Qpos QE(1) by (simp add: q_def abs_divide pos_divide_less_eq)
    hence "q \<le> of_int (2 ^ 23)" "of_int (- (2 ^ 23)) \<le> q" by simp_all
    hence "k \<le> 2 ^ 23" "- (2 ^ 23) \<le> k"
      unfolding k_def using roundTiesToEven_le roundTiesToEven_ge by blast+
    hence "\<bar>k\<bar> \<le> 2 ^ 23" by simp
    hence "real_of_int \<bar>k\<bar> \<le> 2 ^ 23" by (metis of_int_le_iff of_int_numeral of_int_power)
    hence le: "\<bar>y\<bar> \<le> 2 powi E" using Qpos unfolding ay QE by simp
    have y0: "y \<noteq> 0" using assms(2) y_def by simp
    show ?thesis
    proof (cases "\<bar>y\<bar> = 2 powi E")
      case True
      hence "binade y = E" using E126 by (intro binade_normal) (simp_all add: power_int_add)
      thus ?thesis by simp
    next
      case False
      hence "\<bar>y\<bar> < 2 powi (- 126)" using le E by simp
      thus ?thesis using binade_subnormal[OF y0] E by simp
    qed
  qed
  thus ?thesis
  proof
    assume "binade y = E"
    hence "y = of_int k * 2 powi (binade y - 23)" using y Q_def by simp
    thus ?thesis unfolding y_def[symmetric] by (rule fround_real_grid)
  next
    assume a: "binade y = E + 1 \<and> \<bar>k\<bar> = 2 ^ 24"
    hence "k = 2 ^ 24 \<or> k = - (2 ^ 24)" by linarith
    hence "k = 2 * (k div 2)" by auto
    hence "real_of_int k = 2 * real_of_int (k div 2)" by (metis of_int_mult of_int_numeral)
    moreover have "2 powi (binade y - 23) = 2 * Q" using a by (simp add: Q_def power_int_diff power_int_add)
    ultimately have "y = of_int (k div 2) * 2 powi (binade y - 23)" using y by simp
    thus ?thesis unfolding y_def[symmetric] by (rule fround_real_grid)
  qed
qed

lemma Math_fround_idem: "Math_fround (Math_fround v) = Math_fround v"
proof (cases v)
  case (Fin x)
  show ?thesis
  proof (cases "x = 0 \<or> fround_real x = 0")
    case True thus ?thesis using Fin by (auto simp add: Math_fround_def Let_def)
  next
    case False
    hence "fround_real (fround_real x) = fround_real x" by (simp add: fround_real_idem)
    thus ?thesis using Fin False by (simp add: Math_fround_def Let_def)
  qed
qed (simp_all add: Math_fround_def)


lemma of_f32_to_f32 [simp]: "of_f32 (to_f32 v) = Math_fround v"
  by (simp add: of_f32_def to_f32_def Abs_f32_inverse Math_fround_idem)

lemma Math_fround_of_f32: "Math_fround (of_f32 x) = of_f32 x"
  using Rep_f32[of x] by (simp add: of_f32_def)

lemma to_f32_of_f32 [simp]: "to_f32 (of_f32 x) = x"
  by (simp add: to_f32_def Math_fround_of_f32[unfolded of_f32_def] of_f32_def Rep_f32_inverse)

lemma of_f32_defined: "of_f32 x \<noteq> Undefined"
  using Math_fround_of_f32[of x] by (cases "of_f32 x") (auto simp add: Math_fround_def)

lemma of_f32_inject: "of_f32 x = of_f32 y \<longleftrightarrow> x = y"
  by (simp add: of_f32_def Rep_f32_inject)

lemma Math_fround_normal:
  assumes "2 powi E \<le> \<bar>x\<bar>" "\<bar>x\<bar> < 2 powi (E + 1)" "- 126 \<le> E"
    and "y = of_int (roundTiesToEven (x / 2 powi (E - 23))) * 2 powi (E - 23)"
  shows "Math_fround (Fin x) =
           (if 2 ^ 128 \<le> y then PInf else if y \<le> - (2 ^ 128) then NInf else Fin y)"
proof -
  have "(0::real) < 2 powi E" by (simp add: zero_less_power_int)
  hence "0 < \<bar>x\<bar>" using assms(1) by linarith
  hence "x \<noteq> 0" by simp
  moreover have "binade x = E" using assms(1-3) by (rule binade_normal)
  ultimately show ?thesis using assms(4) by (simp add: Math_fround_def fround_real_def Let_def)
qed

text \<open>The numbers of the small asset, and those written into it below, are
  single-precision values.\<close>

lemma Math_fround_exact:
  assumes "2 powi E \<le> \<bar>x\<bar>" "\<bar>x\<bar> < 2 powi (E + 1)" "- 126 \<le> E" "\<bar>x\<bar> < 2 ^ 128"
    and "x / 2 powi (E - 23) = of_int k"
  shows "Math_fround (Fin x) = Fin x"
proof -
  have "x = of_int (roundTiesToEven (x / 2 powi (E - 23))) * 2 powi (E - 23)"
    unfolding assms(5) roundTiesToEven_of_int
    unfolding assms(5)[symmetric] by simp
  from Math_fround_normal[OF assms(1-3) this] assms(4) show ?thesis
    by auto
qed

lemma Math_fround_demo [simp]:
  "Math_fround (Fin 0) = Fin 0"
  "Math_fround (Fin 1) = Fin 1"
  "Math_fround (Fin 3) = Fin 3"
  "Math_fround (Fin 6) = Fin 6"
  "Math_fround (Fin 7) = Fin 7"
  "Math_fround (Fin 10) = Fin 10"
  "Math_fround (Fin 15) = Fin 15"
  "Math_fround (Fin 30) = Fin 30"
  "Math_fround (Fin (- 30)) = Fin (- 30)"
  "Math_fround (Fin (1 / 2)) = Fin (1 / 2)"
  "Math_fround (Fin (1 / 4)) = Fin (1 / 4)"
  "Math_fround (Fin (1 / 8)) = Fin (1 / 8)"
proof -
  show "Math_fround (Fin 0) = Fin 0" by (simp add: Math_fround_def)
  show "Math_fround (Fin 1) = Fin 1"
    by (rule Math_fround_exact[where E = 0 and k = "2 ^ 23"]) simp_all
  show "Math_fround (Fin 3) = Fin 3"
    by (rule Math_fround_exact[where E = 1 and k = "3 * 2 ^ 22"]) simp_all
  show "Math_fround (Fin 6) = Fin 6"
    by (rule Math_fround_exact[where E = 2 and k = "6 * 2 ^ 21"]) simp_all
  show "Math_fround (Fin 7) = Fin 7"
    by (rule Math_fround_exact[where E = 2 and k = "7 * 2 ^ 21"]) simp_all
  show "Math_fround (Fin 10) = Fin 10"
    by (rule Math_fround_exact[where E = 3 and k = "10 * 2 ^ 20"]) simp_all
  show "Math_fround (Fin 15) = Fin 15"
    by (rule Math_fround_exact[where E = 3 and k = "15 * 2 ^ 20"]) simp_all
  show "Math_fround (Fin 30) = Fin 30"
    by (rule Math_fround_exact[where E = 4 and k = "30 * 2 ^ 19"]) simp_all
  show "Math_fround (Fin (- 30)) = Fin (- 30)"
    by (rule Math_fround_exact[where E = 4 and k = "- (30 * 2 ^ 19)"]) simp_all
  show "Math_fround (Fin (1 / 2)) = Fin (1 / 2)"
    by (rule Math_fround_exact[where E = "- 1" and k = "2 ^ 23"]) simp_all
  show "Math_fround (Fin (1 / 4)) = Fin (1 / 4)"
    by (rule Math_fround_exact[where E = "- 2" and k = "2 ^ 23"]) simp_all
  show "Math_fround (Fin (1 / 8)) = Fin (1 / 8)"
    by (rule Math_fround_exact[where E = "- 3" and k = "2 ^ 23"]) simp_all
qed

text \<open>Two numbers that are not: a tenth, and a half plus \<open>1 / 2 ^ 30\<close>.\<close>

lemma Math_fround_tenth: "Math_fround (Fin (1 / 10)) = Fin (13421773 / 134217728)"
  by (subst Math_fround_normal[where E = "- 4" and y = "13421773 / 134217728"])
    (simp_all add: roundTiesToEven_def)

lemma Math_fround_half: "Math_fround (Fin (1 / 2 + 1 / 2 ^ 30)) = Fin (1 / 2)"
  by (subst Math_fround_normal[where E = "- 1" and y = "1 / 2"])
    (simp_all add: roundTiesToEven_def)

text \<open>A number beyond the single-precision range becomes an infinity.\<close>

lemma Math_fround_huge: "Math_fround (Fin (10 ^ 39)) = PInf"
  by (subst Math_fround_normal[where E = 129 and y = "12325952 * 2 ^ 106"])
    (simp_all add: roundTiesToEven_def)

lemma f32_get_nth:
  "0 \<le> i \<Longrightarrow> i < int (length xs) \<Longrightarrow> f32_get xs i = of_f32 (xs ! nat i)"
  by (simp add: f32_get_def)

lemma f32_get_set:
  "0 \<le> i \<Longrightarrow> i < int (length xs) \<Longrightarrow> f32_get (f32_set xs i v) i = Math_fround v"
  by (simp add: f32_get_def f32_set_def of_f32_to_f32)

lemma f32_set_length [simp]: "length (f32_set xs i v) = length xs"
  by (simp add: f32_set_def)

subsection \<open>The small asset\<close>

lemma demo_initialize: "initialize (CubismModel_new demo_Model) = Inr demo"
  by (simp add: initialize_def CubismModel_new_def demo_Model_def demo_def getId_def vec_at_def
      getDrawableParentPartIndex_def at_update_def upt_conv_Cons)

lemma demo_initialized: "initialized demo"
  by (simp add: initialized_def wf_Model_def demo_def demo_Model_def absentIndices_def)

lemma demo_sharedCulling: "sharedCulling demo"
  by (simp add: sharedCulling_def demo_def)

subsection \<open>Vectors and scans\<close>

lemma vec_at_Some: "0 \<le> i \<Longrightarrow> i < int (length xs) \<Longrightarrow> vec_at xs i = Some (xs ! nat i)"
  by (simp add: vec_at_def)

lemma vec_at_SomeD: "vec_at xs i = Some x \<Longrightarrow> 0 \<le> i \<and> i < int (length xs) \<and> xs ! nat i = x"
  by (simp add: vec_at_def split: if_splits)

lemma scanIds_None: "scanIds ids n h = None \<longleftrightarrow> h \<notin> set (take n ids)"
proof -
  have "(\<exists>i<n. vec_at ids (int i) = Some h) \<longleftrightarrow> h \<in> set (take n ids)"
  proof
    assume "\<exists>i<n. vec_at ids (int i) = Some h"
    then obtain i where "i < n" "i < length ids" "ids ! i = h"
      by (auto dest!: vec_at_SomeD)
    then show "h \<in> set (take n ids)"
      by (auto simp: in_set_conv_nth intro!: exI[of _ i])
  next
    assume "h \<in> set (take n ids)"
    then obtain i where "i < n" "i < length ids" "ids ! i = h"
      by (auto simp: in_set_conv_nth)
    then show "\<exists>i<n. vec_at ids (int i) = Some h"
      by (auto simp: vec_at_def intro!: exI[of _ i])
  qed
  then show ?thesis
    by (auto simp: scanIds_def find_None_iff)
qed

lemma scanIds_Some: "scanIds ids n h = Some i \<Longrightarrow> i < n \<and> i < length ids \<and> ids ! i = h"
  by (auto simp: scanIds_def find_Some_iff dest!: vec_at_SomeD)

subsection \<open>Drawable lookup\<close>

text \<open>
  Claim C3, as amended. For a drawable identifier that is not in the loaded asset,
  \<^verbatim>\<open>getDrawableIndex\<close> returns \<open>-1\<close>. The method has no table of absent identifiers and
  returns no model: nothing is allocated, and every later lookup returns \<open>-1\<close> again.
\<close>

theorem getDrawableIndex_unknown:
  "\<not> knownDrawable s drawableId \<Longrightarrow> getDrawableIndex s drawableId = - 1"
  by (simp add: getDrawableIndex_def knownDrawable_def scanIds_None[THEN iffD2])

theorem getDrawableIndex_unknown_witness:
  "\<not> knownDrawable demo ''ArtMesh7'' \<and> getDrawableIndex demo ''ArtMesh7'' = - 1"
  using getDrawableIndex_unknown [of demo "''ArtMesh7''"]
  by (simp add: knownDrawable_def demo_def demo_Model_def)

text \<open>
  Claim C3 as stated fails: the identifier \<open>ArtMesh7\<close> is neither a drawable nor a
  parameter of the small asset; the parameter lookup promotes it to the synthetic index
  \<open>2\<close> (the parameter count), the drawable lookup answers \<open>-1\<close>, which is no index.
\<close>

theorem getDrawableIndex_counterexample:
  "\<not> knownDrawable demo ''ArtMesh7'' \<and> \<not> knownParameter demo ''ArtMesh7''
   \<and> getDrawableIndex demo ''ArtMesh7'' = - 1
   \<and> fst (getParameterIndex demo ''ArtMesh7'') = 2
   \<and> getDrawableCount demo = 2 \<and> getParameterCount demo = 2"
  by (simp add: knownDrawable_def knownParameter_def getDrawableIndex_def getParameterIndex_def
      scanIds_def getValue_def getSize_def getDrawableCount_def getParameterCount_def
      demo_def demo_Model_def vec_at_def upt_conv_Cons)

subsection \<open>Precedence of the colour and culling overrides\<close>

text \<open>
  Claim C5. For a drawable index \<open>d\<close> of an initialised model, \<^verbatim>\<open>getMultiplyColor\<close>,
  \<^verbatim>\<open>getScreenColor\<close> and \<^verbatim>\<open>getDrawableCulling\<close> return the override value stored for \<open>d\<close>
  when the model-wide flag (the field \<^verbatim>\<open>_isOverriddenModelMultiplyColors\<close>,
  \<^verbatim>\<open>_isOverriddenModelScreenColors\<close>, \<^verbatim>\<open>_isOverriddenCullings\<close>) is set, whatever the
  flag of \<open>d\<close>; otherwise the override value when the flag of the record of \<open>d\<close> is set;
  otherwise the asset-authored value: for a colour the four entries \<open>4d\<close>, \<open>4d + 1\<close>,
  \<open>4d + 2\<close>, \<open>4d + 3\<close> of the colour array of the snapshot, for culling the absence of
  the double-sided bit (bit 2) in the constant flags of \<open>d\<close>. No branch combines two
  sources.
\<close>

theorem override_precedence:
  assumes "initialized s" "0 \<le> d" "d < int (drawables_count (model s))"
  shows "getMultiplyColor s d =
           Inr (if isOverriddenModelMultiplyColors s
                then colorD (userMultiplyColors s ! nat d)
                else if isOverriddenD (userMultiplyColors s ! nat d)
                     then colorD (userMultiplyColors s ! nat d)
                     else \<lparr>colR = of_f32 (drawables_multiplyColors (model s) ! (4 * nat d)),
                           colG = of_f32 (drawables_multiplyColors (model s) ! (4 * nat d + 1)),
                           colB = of_f32 (drawables_multiplyColors (model s) ! (4 * nat d + 2)),
                           colA = of_f32 (drawables_multiplyColors (model s) ! (4 * nat d + 3))\<rparr>)
       \<and> getScreenColor s d =
           Inr (if isOverriddenModelScreenColors s
                then colorD (userScreenColors s ! nat d)
                else if isOverriddenD (userScreenColors s ! nat d)
                     then colorD (userScreenColors s ! nat d)
                     else \<lparr>colR = of_f32 (drawables_screenColors (model s) ! (4 * nat d)),
                           colG = of_f32 (drawables_screenColors (model s) ! (4 * nat d + 1)),
                           colB = of_f32 (drawables_screenColors (model s) ! (4 * nat d + 2)),
                           colA = of_f32 (drawables_screenColors (model s) ! (4 * nat d + 3))\<rparr>)
       \<and> getDrawableCulling s d =
           Inr (if isOverriddenCullings s
                then isCulling (cullingStore s (userCullings s ! nat d))
                else if isOverriddenC (cullingStore s (userCullings s ! nat d))
                     then isCulling (cullingStore s (userCullings s ! nat d))
                     else \<not> bit (drawables_constantFlags (model s) ! nat d) 2)"
proof -
  have len: "d < int (length (userMultiplyColors s))" "d < int (length (userScreenColors s))"
      "d < int (length (userCullings s))" "d < int (length (drawables_constantFlags (model s)))"
      "length (drawables_multiplyColors (model s)) = 4 * drawables_count (model s)"
      "length (drawables_screenColors (model s)) = 4 * drawables_count (model s)"
    using assms by (simp_all add: initialized_def wf_Model_def)
  have idx: "nat (d * 4) = 4 * nat d" "nat (d * 4 + 1) = 4 * nat d + 1"
      "nat (d * 4 + 2) = 4 * nat d + 2" "nat (d * 4 + 3) = 4 * nat d + 3"
    using assms(2) by simp_all
  have asset: "getDrawableMultiplyColor s d =
        \<lparr>colR = of_f32 (drawables_multiplyColors (model s) ! (4 * nat d)),
         colG = of_f32 (drawables_multiplyColors (model s) ! (4 * nat d + 1)),
         colB = of_f32 (drawables_multiplyColors (model s) ! (4 * nat d + 2)),
         colA = of_f32 (drawables_multiplyColors (model s) ! (4 * nat d + 3))\<rparr>"
      "getDrawableScreenColor s d =
        \<lparr>colR = of_f32 (drawables_screenColors (model s) ! (4 * nat d)),
         colG = of_f32 (drawables_screenColors (model s) ! (4 * nat d + 1)),
         colB = of_f32 (drawables_screenColors (model s) ! (4 * nat d + 2)),
         colA = of_f32 (drawables_screenColors (model s) ! (4 * nat d + 3))\<rparr>"
    using assms(2,3) len(5,6)
    by (simp_all add: getDrawableMultiplyColor_def getDrawableScreenColor_def Let_def
        f32_get_def idx)
  show ?thesis
    using assms(2) len(1-4)
    by (simp add: getMultiplyColor_def getScreenColor_def getDrawableCulling_def
        getOverrideFlagForModelMultiplyColors_def getOverrideFlagForModelScreenColors_def
        getOverrideFlagForModelCullings_def getOverrideFlagForDrawableMultiplyColors_def
        getOverrideFlagForDrawableScreenColors_def getOverrideFlagForDrawableCullings_def
        hasIsDoubleSidedBit_def vec_at_Some asset)
qed

text \<open>
  The second drawable of the small asset, double-sided and with authored colours of
  its own, for which a red multiply colour, a blue screen colour and culling have been
  stored as override values. With the three model-wide flags set and its own flags
  off, and with its own flags set and the model-wide flags off, the stored values are
  returned; in the small asset as initialised, with no flag set, the authored colours
  are returned and the drawable is not culled, while the first drawable, which is not
  double-sided, is.
\<close>

lemma demo_modelwide_initialized: "initialized demo_modelwide"
  by (simp add: initialized_def wf_Model_def absentIndices_def demo_modelwide_def
      demo_def demo_Model_def)

lemma demo_own_initialized: "initialized demo_own"
  by (simp add: initialized_def wf_Model_def absentIndices_def demo_own_def
      demo_def demo_Model_def)

theorem override_precedence_witness:
  "initialized demo_modelwide
   \<and> getMultiplyColor demo_modelwide 1 = Inr red
   \<and> getScreenColor demo_modelwide 1 = Inr blue
   \<and> getDrawableCulling demo_modelwide 1 = Inr True
   \<and> initialized demo_own
   \<and> getMultiplyColor demo_own 1 = Inr red
   \<and> getScreenColor demo_own 1 = Inr blue
   \<and> getDrawableCulling demo_own 1 = Inr True
   \<and> initialized demo
   \<and> getMultiplyColor demo 1
       = Inr \<lparr>colR = Fin (1 / 2), colG = Fin (1 / 4), colB = Fin (1 / 8), colA = Fin 1\<rparr>
   \<and> getScreenColor demo 1
       = Inr \<lparr>colR = Fin (1 / 8), colG = Fin (1 / 4), colB = Fin (1 / 2), colA = Fin 0\<rparr>
   \<and> getDrawableCulling demo 1 = Inr False
   \<and> getDrawableCulling demo 0 = Inr True"
proof -
  have c: "(0::int) \<le> 1" "1 < int (drawables_count (model demo_modelwide))"
      "1 < int (drawables_count (model demo_own))" "1 < int (drawables_count (model demo))"
      "(0::int) \<le> 0" "0 < int (drawables_count (model demo))"
    by (simp_all add: demo_modelwide_def demo_own_def demo_def demo_Model_def)
  have n: "4 * nat 1 = 4" "nat 1 = 1" "4 * nat 0 = 0" "nat 0 = 0"
    by simp_all
  from override_precedence [OF demo_modelwide_initialized c(1,2)]
  have 1: "getMultiplyColor demo_modelwide 1 = Inr red"
      "getScreenColor demo_modelwide 1 = Inr blue"
      "getDrawableCulling demo_modelwide 1 = Inr True"
    by (simp_all add: demo_modelwide_def demo_def)
  from override_precedence [OF demo_own_initialized c(1,3)]
  have 2: "getMultiplyColor demo_own 1 = Inr red"
      "getScreenColor demo_own 1 = Inr blue"
      "getDrawableCulling demo_own 1 = Inr True"
    by (simp_all add: demo_own_def demo_def)
  from override_precedence [OF demo_initialized c(1,4)]
  have 3: "getMultiplyColor demo 1
        = Inr \<lparr>colR = Fin (1 / 2), colG = Fin (1 / 4), colB = Fin (1 / 8), colA = Fin 1\<rparr>"
      "getScreenColor demo 1
        = Inr \<lparr>colR = Fin (1 / 8), colG = Fin (1 / 4), colB = Fin (1 / 2), colA = Fin 0\<rparr>"
      "getDrawableCulling demo 1 = Inr False"
    unfolding n by (simp_all add: demo_def demo_Model_def of_f32_to_f32)
  from override_precedence [OF demo_initialized c(5,6)]
  have 4: "getDrawableCulling demo 0 = Inr True"
    unfolding n by (simp add: demo_def demo_Model_def)
  from 1 2 3 4 demo_modelwide_initialized demo_own_initialized demo_initialized
  show ?thesis
    by simp
qed

subsection \<open>What \<^verbatim>\<open>initialize\<close> establishes\<close>

lemma initParameters_eq:
  "\<forall>i \<in> set ks. i < length (parameters_ids m) \<Longrightarrow>
   initParameters m ks s =
     Inr (s\<lparr>parameterIds := parameterIds s @ map ((!) (parameters_ids m)) ks,
            userParameterRepeatDataList :=
              userParameterRepeatDataList s
                @ replicate (length ks) \<lparr>isOverriddenR = False, isParameterRepeated = False\<rparr>\<rparr>)"
proof (induction ks arbitrary: s)
  case Nil
  then show ?case by simp
next
  case (Cons i ks)
  then show ?case
    by (simp add: getId_def vec_at_def replicate_app_Cons_same)
qed

lemma initPartIds_eq:
  "\<forall>i \<in> set ks. i < length (parts_ids m) \<Longrightarrow>
   initPartIds m ks s = Inr (s\<lparr>partIds := partIds s @ map ((!) (parts_ids m)) ks\<rparr>)"
proof (induction ks arbitrary: s)
  case Nil
  then show ?case by simp
next
  case (Cons i ks)
  then show ?case
    by (simp add: getId_def vec_at_def)
qed

lemma initParts_eq:
  "initParts ks s =
     s\<lparr>userPartMultiplyColors :=
         userPartMultiplyColors s
           @ replicate (length ks) \<lparr>isOverriddenP = False, colorP = white\<rparr>,
       userPartScreenColors :=
         userPartScreenColors s
           @ replicate (length ks) \<lparr>isOverriddenP = False, colorP = black\<rparr>,
       partChildDrawables := partChildDrawables s @ replicate (length ks) []\<rparr>"
proof (induction ks arbitrary: s)
  case Nil
  then show ?case by simp
next
  case (Cons i ks)
  then show ?case
    by (simp add: replicate_app_Cons_same)
qed



lemma length_childrenAfter [simp]: "length (childrenAfter parents ks pcd) = length pcd"
  by (induction ks arbitrary: pcd) (simp_all split: option.splits)


lemma initDrawables_eq:
  "\<forall>i \<in> set ks. i < length (drawables_ids (model s)) \<Longrightarrow>
   \<forall>i \<in> set ks. \<forall>p. vec_at (drawables_parentPartIndices (model s)) (int i) = Some p
             \<longrightarrow> p < int (length (partChildDrawables s)) \<Longrightarrow>
   initDrawables ref ks s =
     Inr (s\<lparr>drawableIds := drawableIds s @ map ((!) (drawables_ids (model s))) ks,
            userMultiplyColors :=
              userMultiplyColors s
                @ replicate (length ks) \<lparr>isOverriddenD = False, colorD = white\<rparr>,
            userScreenColors :=
              userScreenColors s
                @ replicate (length ks) \<lparr>isOverriddenD = False, colorD = black\<rparr>,
            userCullings := userCullings s @ replicate (length ks) ref,
            partChildDrawables :=
              childrenAfter (drawables_parentPartIndices (model s)) ks (partChildDrawables s)\<rparr>)"
proof (induction ks arbitrary: s)
  case Nil
  then show ?case by simp
next
  case (Cons i ks)
  have idi: "getId (vec_at (drawables_ids (model s)) (int i)) = Inr (drawables_ids (model s) ! i)"
    using Cons.prems(1) by (simp add: getId_def vec_at_def)
  show ?case
  proof (cases "vec_at (drawables_parentPartIndices (model s)) (int i)")
    case None
    with idi Cons.prems show ?thesis
      by (simp add: Cons.IH getDrawableParentPartIndex_def replicate_app_Cons_same)
  next
    case (Some p)
    with Cons.prems(2) have plt: "p < int (length (partChildDrawables s))" by simp
    show ?thesis
    proof (cases "0 \<le> p")
      case True
      with idi Some plt Cons.prems show ?thesis
        by (simp add: Cons.IH getDrawableParentPartIndex_def at_update_def vec_at_Some
            replicate_app_Cons_same)
    next
      case False
      with idi Some Cons.prems show ?thesis
        by (simp add: Cons.IH getDrawableParentPartIndex_def replicate_app_Cons_same)
    qed
  qed
qed


lemma initialize_eq:
  assumes "wf_Model m"
  shows "initialize (CubismModel_new m) =
     Inr ((CubismModel_new m)
           \<lparr>parameterIds := parameters_ids m,
            userParameterRepeatDataList :=
              replicate (parameters_count m) \<lparr>isOverriddenR = False, isParameterRepeated = False\<rparr>,
            partIds := parts_ids m,
            cullingStore :=
              (cullingStore (CubismModel_new m))(0 := \<lparr>isOverriddenC = False, isCulling = False\<rparr>),
            cullingCount := 1,
            userPartMultiplyColors :=
              replicate (parts_count m) \<lparr>isOverriddenP = False, colorP = white\<rparr>,
            userPartScreenColors :=
              replicate (parts_count m) \<lparr>isOverriddenP = False, colorP = black\<rparr>,
            drawableIds := drawables_ids m,
            userMultiplyColors :=
              replicate (drawables_count m) \<lparr>isOverriddenD = False, colorD = white\<rparr>,
            userScreenColors :=
              replicate (drawables_count m) \<lparr>isOverriddenD = False, colorD = black\<rparr>,
            userCullings := replicate (drawables_count m) 0,
            partChildDrawables :=
              childrenAfter (drawables_parentPartIndices m) [0..<drawables_count m]
                (replicate (parts_count m) [])\<rparr>)"
proof -
  have ids: "map ((!) (parameters_ids m)) [0..<parameters_count m] = parameters_ids m"
       "map ((!) (parts_ids m)) [0..<parts_count m] = parts_ids m"
       "map ((!) (drawables_ids m)) [0..<drawables_count m] = drawables_ids m"
    using assms map_nth[of "parameters_ids m"] map_nth[of "parts_ids m"]
      map_nth[of "drawables_ids m"]
    by (simp_all add: wf_Model_def del: map_nth)
  have par: "\<forall>i\<in>set [0..<drawables_count m]. \<forall>p.
       vec_at (drawables_parentPartIndices m) (int i) = Some p \<longrightarrow> p < int (parts_count m)"
    using assms by (auto simp: wf_Model_def list_all_length dest!: vec_at_SomeD)
  show ?thesis
    using assms par
    by (simp add: initialize_def initParameters_eq initPartIds_eq initParts_eq initDrawables_eq
        ids wf_Model_def CubismModel_new_def)
qed


subsection \<open>Absent tables of an initialised model\<close>

lemma absentIndices_ge: "k \<in> set (absentIndices count n) \<Longrightarrow> int count \<le> k"
  by (auto simp: absentIndices_def)

lemma isExist_getValue: "isExist m k \<longleftrightarrow> getValue m k \<noteq> None"
  by (simp add: isExist_def getValue_def map_of_eq_None_iff)

lemma initialized_real_parameter:
  assumes "initialized s" "i < int (parameters_count (model s))"
  shows "\<not> isExist (notExistParameterValues s) i" "getValue (notExistParameterValues s) i = None"
proof -
  show "\<not> isExist (notExistParameterValues s) i"
  proof
    assume "isExist (notExistParameterValues s) i"
    moreover from assms(1) have "map fst (notExistParameterValues s)
        = absentIndices (parameters_count (model s)) (length (notExistParameterId s))"
      by (simp add: initialized_def)
    ultimately have "i \<in> set (absentIndices (parameters_count (model s))
        (length (notExistParameterId s)))"
      unfolding isExist_def by (simp only:)
    from absentIndices_ge[OF this] assms(2) show False by simp
  qed
  then show "getValue (notExistParameterValues s) i = None"
    by (simp add: isExist_getValue)
qed

lemma initialized_real_part:
  assumes "initialized s" "i < int (parts_count (model s))"
  shows "\<not> isExist (notExistPartOpacities s) i" "getValue (notExistPartOpacities s) i = None"
proof -
  show "\<not> isExist (notExistPartOpacities s) i"
  proof
    assume "isExist (notExistPartOpacities s) i"
    moreover from assms(1) have "map fst (notExistPartOpacities s)
        = absentIndices (parts_count (model s)) (length (notExistPartId s))"
      by (simp add: initialized_def)
    ultimately have "i \<in> set (absentIndices (parts_count (model s)) (length (notExistPartId s)))"
      unfolding isExist_def by (simp only:)
    from absentIndices_ge[OF this] assms(2) show False by simp
  qed
  then show "getValue (notExistPartOpacities s) i = None"
    by (simp add: isExist_getValue)
qed

subsection \<open>The repeat policy of a parameter\<close>





subsection \<open>The culling record shared by the drawables\<close>

lemma sharedCulling_nth:
  "sharedCulling s \<Longrightarrow> i < length (userCullings s) \<Longrightarrow> j < length (userCullings s) \<Longrightarrow>
   userCullings s ! i = userCullings s ! j"
  by (simp add: sharedCulling_def)

lemma setDrawableCulling_userCullings:
  "setDrawableCulling s i v = Inr s' \<Longrightarrow> userCullings s' = userCullings s"
  by (auto simp: setDrawableCulling_def split: option.splits)

lemma setOverrideFlagForDrawableCullings_userCullings:
  "setOverrideFlagForDrawableCullings s i v = Inr s' \<Longrightarrow> userCullings s' = userCullings s"
  by (auto simp: setOverrideFlagForDrawableCullings_def split: option.splits)

lemma setOverrideFlagForModelCullings_userCullings:
  "userCullings (setOverrideFlagForModelCullings s v) = userCullings s"
  by (simp add: setOverrideFlagForModelCullings_def)

lemma initialize_userCullings:
  assumes "wf_Model m" and "initialize (CubismModel_new m) = Inr s"
  shows "userCullings s = replicate (drawables_count m) 0"
  using assms(2)[unfolded initialize_eq[OF assms(1)]] by auto

text \<open>
  Claim C9. The model \<open>s0\<close> that \<^verbatim>\<open>initialize\<close> makes of a loaded asset holds one
  \<^verbatim>\<open>DrawableCullingData\<close> object in every slot of \<^verbatim>\<open>_userCullings\<close>, and no method replaces
  a slot (\<open>setDrawableCulling_userCullings\<close>,
  \<open>setOverrideFlagForDrawableCullings_userCullings\<close>). So in \<open>s0\<close> and in every later
  state \<open>s\<close>, whose slots are those of \<open>s0\<close>, for drawable indices \<open>i\<close> and \<open>j\<close>:
  \<^verbatim>\<open>setDrawableCulling(i, v)\<close> sets the override culling value read through \<open>j\<close>, which
  \<^verbatim>\<open>getDrawableCulling(j)\<close> returns whenever it takes the override path (the model-wide
  flag or the flag read through \<open>j\<close> is set), and
  \<^verbatim>\<open>setOverrideFlagForDrawableCullings(i, v)\<close> makes
  \<^verbatim>\<open>getOverrideFlagForDrawableCullings(j)\<close> equal to \<open>v\<close>.
\<close>

theorem culling_record_shared:
  assumes "wf_Model m" "initialize (CubismModel_new m) = Inr s0"
      and "userCullings s = userCullings s0"
      and "0 \<le> i" "i < int (drawables_count m)" "0 \<le> j" "j < int (drawables_count m)"
  shows "userCullings s0 ! nat i = userCullings s0 ! nat j
       \<and> (\<exists>s'. setDrawableCulling s i v = Inr s'
            \<and> isCulling (cullingStore s' (userCullings s' ! nat j)) = v
            \<and> (isOverriddenCullings s' \<or> isOverriddenC (cullingStore s' (userCullings s' ! nat j))
               \<longrightarrow> getDrawableCulling s' j = Inr v))
       \<and> (\<exists>s'. setOverrideFlagForDrawableCullings s i v = Inr s'
            \<and> isOverriddenC (cullingStore s' (userCullings s' ! nat j)) = v
            \<and> getOverrideFlagForDrawableCullings s' j = Inr v)"
proof -
  have u: "userCullings s = replicate (drawables_count m) 0"
    using initialize_userCullings[OF assms(1,2)] assms(3) by simp
  have len: "i < int (length (userCullings s))" "j < int (length (userCullings s))"
    using assms(5,7) u by simp_all
  have nth: "userCullings s ! nat i = 0" "userCullings s ! nat j = 0"
    using assms(4-7) u by simp_all
  have same: "userCullings s0 ! nat i = userCullings s0 ! nat j"
    using nth assms(3) by simp
  have 1: "\<exists>s'. setDrawableCulling s i v = Inr s'
            \<and> isCulling (cullingStore s' (userCullings s' ! nat j)) = v
            \<and> (isOverriddenCullings s' \<or> isOverriddenC (cullingStore s' (userCullings s' ! nat j))
               \<longrightarrow> getDrawableCulling s' j = Inr v)"
    using assms(4,6) len nth
    by (simp add: setDrawableCulling_def getDrawableCulling_def
        getOverrideFlagForDrawableCullings_def getOverrideFlagForModelCullings_def vec_at_Some)
  have 2: "\<exists>s'. setOverrideFlagForDrawableCullings s i v = Inr s'
            \<and> isOverriddenC (cullingStore s' (userCullings s' ! nat j)) = v
            \<and> getOverrideFlagForDrawableCullings s' j = Inr v"
    using assms(4,6) len nth
    by (simp add: setOverrideFlagForDrawableCullings_def getOverrideFlagForDrawableCullings_def
        vec_at_Some)
  from same 1 2 show ?thesis
    by blast
qed

text \<open>
  The small asset: \<open>demo\<close> is what \<^verbatim>\<open>initialize\<close> makes of it (\<open>demo_initialize\<close>). With
  the model-wide culling flag then set, culling switched on through the first
  drawable is what \<^verbatim>\<open>getDrawableCulling\<close> returns for the second, which is double-sided
  and so not culled on the asset path; and the override flag set through the first
  is read through the second.
\<close>

theorem culling_record_shared_witness:
  "wf_Model demo_Model
   \<and> initialize (CubismModel_new demo_Model) = Inr demo
   \<and> userCullings (setOverrideFlagForModelCullings demo True) = userCullings demo
   \<and> getDrawableCulling (setOverrideFlagForModelCullings demo True) 1 = Inr False
   \<and> (\<exists>s'. setDrawableCulling (setOverrideFlagForModelCullings demo True) 0 True = Inr s'
          \<and> getDrawableCulling s' 1 = Inr True)
   \<and> getOverrideFlagForDrawableCullings demo 1 = Inr False
   \<and> (\<exists>s'. setOverrideFlagForDrawableCullings demo 0 True = Inr s'
          \<and> getOverrideFlagForDrawableCullings s' 1 = Inr True)"
proof -
  let ?t = "setOverrideFlagForModelCullings demo True"
  have wf: "wf_Model demo_Model"
    by (simp add: wf_Model_def demo_Model_def)
  have u: "userCullings ?t = userCullings demo" "userCullings demo = userCullings demo"
    by (simp_all add: setOverrideFlagForModelCullings_def)
  have c: "(0::int) \<le> 0" "0 < int (drawables_count demo_Model)"
      "(0::int) \<le> 1" "1 < int (drawables_count demo_Model)"
    by (simp_all add: demo_Model_def)
  have b: "getDrawableCulling ?t 1 = Inr False"
      "getOverrideFlagForDrawableCullings demo 1 = Inr False"
    by (simp_all add: getDrawableCulling_def getOverrideFlagForModelCullings_def
        getOverrideFlagForDrawableCullings_def setOverrideFlagForModelCullings_def vec_at_def
        demo_def)
  have f: "\<And>s'. setDrawableCulling ?t 0 True = Inr s' \<Longrightarrow> isOverriddenCullings s'"
    by (auto simp: setDrawableCulling_def setOverrideFlagForModelCullings_def
        split: option.splits)
  from culling_record_shared [OF wf demo_initialize u(1) c, of True]
  have 1: "\<exists>s'. setDrawableCulling ?t 0 True = Inr s' \<and> getDrawableCulling s' 1 = Inr True"
    using f by blast
  from culling_record_shared [OF wf demo_initialize u(2) c, of True]
  have 2: "\<exists>s'. setOverrideFlagForDrawableCullings demo 0 True = Inr s'
            \<and> getOverrideFlagForDrawableCullings s' 1 = Inr True"
    by blast
  from wf demo_initialize u(1) b 1 2 show ?thesis
    by blast
qed

subsection \<open>The cascade from a part to its child drawables\<close>

lemma cascaded_idem [simp]: "cascaded value p (cascaded value p d) = cascaded value p d"
  by (simp add: cascaded_def setColorD_def)

lemma children_loop_eq:
  "\<forall>d \<in> set ds. 0 \<le> d \<and> d < int (length cs) \<Longrightarrow>
   setOverrideColorForPartColors_children value p ds cs = Inr (cascadedAll value p ds cs)"
proof (induction ds arbitrary: cs)
  case Nil
  then show ?case
    by (simp add: cascadedAll_def map_nth)
next
  case (Cons d ds)
  let ?c2 = "cs[nat d := cascaded value p (cs ! nat d)]"
  have d: "0 \<le> d" "d < int (length cs)" "nat d < length cs"
    using Cons.prems by auto
  have step: "setOverrideColorForPartColors_children value p (d # ds) cs
      = setOverrideColorForPartColors_children value p ds ?c2"
    using d by (simp add: at_update_def vec_at_Some cascaded_def)
  have "setOverrideColorForPartColors_children value p ds ?c2 = Inr (cascadedAll value p ds ?c2)"
    using Cons.prems by (intro Cons.IH) simp
  moreover have "cascadedAll value p ds ?c2 = cascadedAll value p (d # ds) cs"
    unfolding cascadedAll_def
  proof (rule nth_equalityI)
    show "length (map (\<lambda>k. if int k \<in> set ds then cascaded value p (?c2 ! k) else ?c2 ! k)
            [0..<length ?c2])
        = length (map (\<lambda>k. if int k \<in> set (d # ds) then cascaded value p (cs ! k) else cs ! k)
            [0..<length cs])"
      by simp
  next
    fix k
    assume "k < length (map (\<lambda>k. if int k \<in> set ds then cascaded value p (?c2 ! k) else ?c2 ! k)
            [0..<length ?c2])"
    then have k: "k < length cs" by simp
    show "map (\<lambda>k. if int k \<in> set ds then cascaded value p (?c2 ! k) else ?c2 ! k)
            [0..<length ?c2] ! k
        = map (\<lambda>k. if int k \<in> set (d # ds) then cascaded value p (cs ! k) else cs ! k)
            [0..<length cs] ! k"
    proof (cases "k = nat d")
      case True
      with k d show ?thesis by simp
    next
      case False
      with d have "int k \<noteq> d" by auto
      with k False show ?thesis by simp
    qed
  qed
  ultimately show ?case
    using step by simp
qed


lemma initialized_children:
  assumes "initialized s" "0 \<le> p" "p < int (parts_count (model s))"
  shows "vec_at (partChildDrawables s) p = Some (partChildDrawables s ! nat p)"
    and "\<forall>d \<in> set (partChildDrawables s ! nat p). 0 \<le> d \<and> d < int (drawables_count (model s))"
proof -
  have len: "nat p < length (partChildDrawables s)"
    using assms by (auto simp: initialized_def)
  then show "vec_at (partChildDrawables s) p = Some (partChildDrawables s ! nat p)"
    using assms(2) by (simp add: vec_at_def)
  have "list_all (list_all (\<lambda>d. 0 \<le> d \<and> d < int (drawables_count (model s))))
          (partChildDrawables s)"
    using assms(1) by (simp add: initialized_def)
  with len have "list_all (\<lambda>d. 0 \<le> d \<and> d < int (drawables_count (model s)))
          (partChildDrawables s ! nat p)"
    by (simp add: list_all_length)
  then show "\<forall>d \<in> set (partChildDrawables s ! nat p).
      0 \<le> d \<and> d < int (drawables_count (model s))"
    by (simp add: list_all_iff)
qed

lemma setOverrideColorForPartColors_eq:
  assumes "initialized s" "0 \<le> p" "p < int (parts_count (model s))"
      and "length ps = parts_count (model s)" "length cs = drawables_count (model s)"
  shows "setOverrideColorForPartColors s p value ps cs =
           Inr (ps[nat p := (ps ! nat p)\<lparr>isOverriddenP := value\<rparr>],
                cascadedAll value ((ps ! nat p)\<lparr>isOverriddenP := value\<rparr>)
                  (partChildDrawables s ! nat p) cs)"
proof -
  have "\<forall>d \<in> set (partChildDrawables s ! nat p). 0 \<le> d \<and> d < int (length cs)"
    using initialized_children(2)[OF assms(1-3)] assms(5) by simp
  from children_loop_eq[OF this] initialized_children(1)[OF assms(1-3)] assms(2-4)
  show ?thesis
    by (simp add: setOverrideColorForPartColors_def at_update_def vec_at_Some)
qed

text \<open>
  Claim C1, as amended. For every part index \<open>p\<close> of an initialised model,
  \<^verbatim>\<open>setOverrideColorForPartMultiplyColors(p, false)\<close> (and the screen-colour equivalent)
  clears the override flag of the part and of every child drawable of \<open>p\<close>; the RGBA
  colour of every child keeps the value it had before the call, and the record of a
  drawable that is no child of \<open>p\<close> is unchanged, as is the rest of the model.
\<close>

theorem part_override_disable:
  assumes "initialized s" "0 \<le> p" "p < int (getPartCount s)"
  shows "setOverrideColorForPartMultiplyColors s p False =
           Inr (s\<lparr>userPartMultiplyColors :=
                    (userPartMultiplyColors s)
                      [nat p := (userPartMultiplyColors s ! nat p)\<lparr>isOverriddenP := False\<rparr>],
                  userMultiplyColors :=
                    map (\<lambda>k. if int k \<in> set (partChildDrawables s ! nat p)
                             then (userMultiplyColors s ! k)\<lparr>isOverriddenD := False\<rparr>
                             else userMultiplyColors s ! k)
                      [0..<length (userMultiplyColors s)]\<rparr>)
       \<and> setOverrideColorForPartScreenColors s p False =
           Inr (s\<lparr>userPartScreenColors :=
                    (userPartScreenColors s)
                      [nat p := (userPartScreenColors s ! nat p)\<lparr>isOverriddenP := False\<rparr>],
                  userScreenColors :=
                    map (\<lambda>k. if int k \<in> set (partChildDrawables s ! nat p)
                             then (userScreenColors s ! k)\<lparr>isOverriddenD := False\<rparr>
                             else userScreenColors s ! k)
                      [0..<length (userScreenColors s)]\<rparr>)"
proof -
  have p: "p < int (parts_count (model s))"
    using assms(3) by (simp add: getPartCount_def)
  have len: "length (userPartMultiplyColors s) = parts_count (model s)"
      "length (userPartScreenColors s) = parts_count (model s)"
      "length (userMultiplyColors s) = drawables_count (model s)"
      "length (userScreenColors s) = drawables_count (model s)"
    using assms(1) by (simp_all add: initialized_def)
  have m: "setOverrideColorForPartMultiplyColors s p False =
           Inr (s\<lparr>userPartMultiplyColors :=
                    (userPartMultiplyColors s)
                      [nat p := (userPartMultiplyColors s ! nat p)\<lparr>isOverriddenP := False\<rparr>],
                  userMultiplyColors :=
                    map (\<lambda>k. if int k \<in> set (partChildDrawables s ! nat p)
                             then (userMultiplyColors s ! k)\<lparr>isOverriddenD := False\<rparr>
                             else userMultiplyColors s ! k)
                      [0..<length (userMultiplyColors s)]\<rparr>)"
    using assms(2) p len(1,3)
    by (simp add: setOverrideColorForPartMultiplyColors_def at_update_def vec_at_Some
        setOverrideColorForPartColors_eq[OF assms(1,2) p] cascadedAll_def cascaded_def)
  have sc: "setOverrideColorForPartScreenColors s p False =
           Inr (s\<lparr>userPartScreenColors :=
                    (userPartScreenColors s)
                      [nat p := (userPartScreenColors s ! nat p)\<lparr>isOverriddenP := False\<rparr>],
                  userScreenColors :=
                    map (\<lambda>k. if int k \<in> set (partChildDrawables s ! nat p)
                             then (userScreenColors s ! k)\<lparr>isOverriddenD := False\<rparr>
                             else userScreenColors s ! k)
                      [0..<length (userScreenColors s)]\<rparr>)"
    using assms(2) p len(2,4)
    by (simp add: setOverrideColorForPartScreenColors_def at_update_def vec_at_Some
        setOverrideColorForPartColors_eq[OF assms(1,2) p] cascadedAll_def cascaded_def)
  from m sc show ?thesis
    by (rule conjI)
qed

lemma demo_enabled_initialized: "initialized demo_enabled"
  by (simp add: initialized_def wf_Model_def demo_enabled_def demo_def demo_Model_def
      absentIndices_def)

theorem part_override_disable_witness:
  "initialized demo_enabled
   \<and> setOverrideColorForPartMultiplyColors demo_enabled 0 False = Inr demo_disabled
   \<and> userMultiplyColors demo_enabled
       = [\<lparr>isOverriddenD = True, colorD = red\<rparr>, \<lparr>isOverriddenD = False, colorD = white\<rparr>]
   \<and> userMultiplyColors demo_disabled
       = [\<lparr>isOverriddenD = False, colorD = red\<rparr>, \<lparr>isOverriddenD = False, colorD = white\<rparr>]"
proof -
  have c: "(0::int) \<le> 0" "0 < int (getPartCount demo_enabled)"
    by (simp_all add: getPartCount_def demo_enabled_def demo_def demo_Model_def)
  have "setOverrideColorForPartMultiplyColors demo_enabled 0 False = Inr demo_disabled"
    using part_override_disable [OF demo_enabled_initialized c]
    by (simp add: demo_enabled_def demo_disabled_def demo_def upt_conv_Cons)
  then show ?thesis
    using demo_enabled_initialized
    by (simp add: demo_enabled_def demo_disabled_def)
qed

text \<open>
  Claim C1 as stated fails on the small asset. The part is painted red and its override
  enabled, which cascades flag and colour to its child, drawable \<open>0\<close>. Disabling the
  override of the part then leaves the child red but no longer overridden: the record
  of the child has changed.
\<close>

theorem part_override_disable_counterexample:
  "setPartMultiplyColorByRGBA demo 0 (Fin 1) (Fin 0) (Fin 0) (Fin 1) = Inr demo_painted
   \<and> setOverrideColorForPartMultiplyColors demo_painted 0 True = Inr demo_enabled
   \<and> partChildDrawables demo_enabled = [[0]]
   \<and> vec_at (userMultiplyColors demo_enabled) 0 = Some \<lparr>isOverriddenD = True, colorD = red\<rparr>
   \<and> setOverrideColorForPartMultiplyColors demo_enabled 0 False = Inr demo_disabled
   \<and> vec_at (userMultiplyColors demo_disabled) 0 = Some \<lparr>isOverriddenD = False, colorD = red\<rparr>"
  by (simp add: setPartMultiplyColorByRGBA_def setPartColor_def
      setOverrideColorForPartMultiplyColors_def setOverrideColorForPartColors_def
      at_update_def vec_at_def setColorP_def setColorD_def
      demo_painted_def demo_enabled_def demo_disabled_def demo_def red_def white_def)

subsection \<open>Saving and loading\<close>

lemma save_fold:
  "fold (\<lambda>i saved. if i < length sv then saved[i := g i] else saved @ [g i]) [0..<n] sv
     = map g [0..<n] @ drop n sv"
proof (induction n)
  case 0
  then show ?case by simp
next
  case (Suc n)
  show ?case
  proof (cases "n < length sv")
    case True
    then have "drop n sv = sv ! n # drop (Suc n) sv"
      by (simp add: Cons_nth_drop_Suc)
    with Suc True show ?thesis
      by (simp add: list_update_append)
  next
    case False
    with Suc show ?thesis by simp
  qed
qed

lemma load_fold:
  "fold (\<lambda>i vs. f32_set vs (int i) (h i)) [0..<n] vs
     = map (\<lambda>i. if i < n then to_f32 (h i) else vs ! i) [0..<length vs]"
proof (induction n)
  case 0
  then show ?case by (simp add: map_nth)
next
  case (Suc n)
  have "f32_set (map (\<lambda>i. if i < n then to_f32 (h i) else vs ! i) [0..<length vs]) (int n) (h n)
      = map (\<lambda>i. if i < Suc n then to_f32 (h i) else vs ! i) [0..<length vs]"
    by (rule nth_equalityI) (auto simp: f32_set_def nth_list_update less_Suc_eq split: if_splits)
  with Suc show ?case by simp
qed

lemma savedParameters_saveParameters:
  "savedParameters (saveParameters s)
     = map (\<lambda>i. f32_get (parameters_values (model s)) (int i)) [0..<parameters_count (model s)]
         @ drop (parameters_count (model s)) (savedParameters s)"
  by (simp add: saveParameters_def save_fold Let_def)

lemma values_loadParameters:
  "parameters_values (model (loadParameters s))
     = map (\<lambda>i. if i < min (parameters_count (model s)) (length (savedParameters s))
                 then to_f32 (savedParameters s ! i) else parameters_values (model s) ! i)
         [0..<length (parameters_values (model s))]"
proof -
  have "fold (\<lambda>i values. f32_set values (int i)
               (case vec_at (savedParameters s) (int i) of None \<Rightarrow> Undefined | Some v \<Rightarrow> v))
          [0..<min (parameters_count (model s)) (length (savedParameters s))]
          (parameters_values (model s))
      = map (\<lambda>i. if i < min (parameters_count (model s)) (length (savedParameters s))
                 then to_f32 (savedParameters s ! i) else parameters_values (model s) ! i)
         [0..<length (parameters_values (model s))]"
    unfolding load_fold by (rule map_cong) (auto simp: vec_at_def)
  moreover have "(if parameters_count (model s) > length (savedParameters s)
                  then length (savedParameters s) else parameters_count (model s))
      = min (parameters_count (model s)) (length (savedParameters s))"
    by simp
  ultimately show ?thesis
    by (simp only: loadParameters_def Let_def) simp
qed

text \<open>
  Claim C7. For every model, \<^verbatim>\<open>saveParameters()\<close> followed by \<^verbatim>\<open>loadParameters()\<close> leaves
  every current parameter value as it was (the load changes nothing at all).
  \<^verbatim>\<open>loadParameters\<close> copies back the entries below the minimum of the parameter count and
  the saved count and leaves the other current values untouched; \<^verbatim>\<open>saveParameters\<close>
  writes the current values over the first entries of the side buffer, appends where
  the buffer was shorter, and keeps what the buffer held beyond the parameter count.
\<close>

theorem save_then_load:
  "parameters_values (model (loadParameters (saveParameters s))) = parameters_values (model s)
   \<and> loadParameters (saveParameters s) = saveParameters s
   \<and> parameters_values (model (loadParameters s))
       = map (\<lambda>i. if i < min (parameters_count (model s)) (length (savedParameters s))
                   then to_f32 (savedParameters s ! i) else parameters_values (model s) ! i)
           [0..<length (parameters_values (model s))]
   \<and> savedParameters (saveParameters s)
       = map (\<lambda>i. f32_get (parameters_values (model s)) (int i))
           [0..<parameters_count (model s)]
           @ drop (parameters_count (model s)) (savedParameters s)"
proof -
  let ?t = "saveParameters s"
  have mt: "model ?t = model s"
    by (simp add: saveParameters_def)
  have "parameters_values (model (loadParameters ?t))
      = map (\<lambda>i. parameters_values (model s) ! i) [0..<length (parameters_values (model s))]"
    unfolding values_loadParameters mt savedParameters_saveParameters
    by (rule map_cong) (auto simp: nth_append f32_get_def to_f32_of_f32)
  then have 1: "parameters_values (model (loadParameters ?t)) = parameters_values (model s)"
    by (simp add: map_nth)
  have "loadParameters ?t = ?t\<lparr>model := (model ?t)\<lparr>parameters_values :=
          parameters_values (model (loadParameters ?t))\<rparr>\<rparr>"
    by (simp add: loadParameters_def Let_def)
  with 1 mt have 2: "loadParameters ?t = ?t"
    by simp
  from 1 2 values_loadParameters savedParameters_saveParameters show ?thesis
    by blast
qed

theorem save_then_load_witness:
  "parameters_values
     (model (loadParameters (saveParameters (demo\<lparr>savedParameters := [Fin 7, Fin 8, Fin 9]\<rparr>))))
     = map to_f32 [Fin 0, Fin 0]
   \<and> savedParameters (saveParameters (demo\<lparr>savedParameters := [Fin 7, Fin 8, Fin 9]\<rparr>))
     = [Fin 0, Fin 0, Fin 9]
   \<and> parameters_values (model (loadParameters (demo\<lparr>savedParameters := [Fin 7]\<rparr>)))
     = map to_f32 [Fin 7, Fin 0]"
  using save_then_load [of "demo\<lparr>savedParameters := [Fin 7, Fin 8, Fin 9]\<rparr>"]
    save_then_load [of "demo\<lparr>savedParameters := [Fin 7]\<rparr>"]
  by (simp add: demo_def demo_Model_def f32_get_def f32_set_def vec_at_def upt_conv_Cons
      saveParameters_def loadParameters_def of_f32_to_f32)

subsection \<open>Writing a parameter value: wrap or clamp\<close>




lemma CubismMath_mod_defined: "CubismMath_mod x y \<noteq> Undefined"
  by (simp add: CubismMath_mod_def split: num.splits)

lemma CubismMath_mod_cases: "(\<exists>r. CubismMath_mod x y = Fin r) \<or> CubismMath_mod x y = NaN"
  by (simp add: CubismMath_mod_def split: num.splits)

lemma wrapAbove_source:
  "(if \<not> Number_isNaN (CubismMath_mod (v - mx) (mx - mn))
    then mn + CubismMath_mod (v - mx) (mx - mn) else mx) = wrapAbove mn mx v"
  using CubismMath_mod_cases[of "v - mx" "mx - mn"]
  by (auto simp add: wrapAbove_def Number_isNaN_def)

lemma wrapBelow_source:
  "(if \<not> Number_isNaN (CubismMath_mod (mn - v) (mx - mn))
    then mx - CubismMath_mod (mn - v) (mx - mn) else mn) = wrapBelow mn mx v"
  using CubismMath_mod_cases[of "mn - v" "mx - mn"]
  by (auto simp add: wrapBelow_def Number_isNaN_def)

lemma repeat_body:
  "(let maxValue = mx;
        minValue = mn;
        valueSize = maxValue - minValue;
        value1 =
          (if maxValue < v then
             (let overValue = CubismMath_mod (v - maxValue) valueSize
              in if \<not> Number_isNaN overValue then minValue + overValue else maxValue)
           else v);
        value2 =
          (if value1 < minValue then
             (let overValue = CubismMath_mod (minValue - value1) valueSize
              in if \<not> Number_isNaN overValue then maxValue - overValue else minValue)
           else value1)
    in Inr value2) = (Inr (wrapValue mn mx v) :: error + num)"
  unfolding Let_def wrapAbove_source wrapBelow_source
  by (simp add: wrapValue_def Let_def)


lemma getParameterRepeatValue_real:
  assumes "initialized s" "0 \<le> i" "i < int (parameters_count (model s))"
  shows "getParameterRepeatValue s i v =
           Inr (wrapValue (getParameterMinimumValue s i) (getParameterMaximumValue s i) v)"
  using assms
  unfolding getParameterRepeatValue_def repeat_body
  by (simp add: initialized_real_parameter getParameterCount_def
      getParameterMinimumValue_def getParameterMaximumValue_def)

lemma getParameterClampValue_real:
  assumes "initialized s" "0 \<le> i" "i < int (parameters_count (model s))"
  shows "getParameterClampValue s i v =
           Inr (CubismMath_clamp v (getParameterMinimumValue s i) (getParameterMaximumValue s i))"
  using assms
  by (simp add: getParameterClampValue_def initialized_real_parameter getParameterCount_def
      getParameterMinimumValue_def getParameterMaximumValue_def)

lemma setParameterValueByIndex_real:
  assumes "initialized s" "0 \<le> i" "i < int (parameters_count (model s))"
      and "isRepeat s i = Inr rep"
  shows "setParameterValueByIndex s i v w =
           Inr (withParameterValue s i
                  (blend (of_f32 (parameters_values (model s) ! nat i))
                     (if rep
                      then wrapValue (getParameterMinimumValue s i) (getParameterMaximumValue s i) v
                      else CubismMath_clamp v (getParameterMinimumValue s i)
                             (getParameterMaximumValue s i))
                     w))"
proof -
  have len: "i < int (length (parameters_values (model s)))"
    using assms(1,3) by (simp add: initialized_def wf_Model_def)
  show ?thesis
    using assms(2,3,4) len
    by (simp add: setParameterValueByIndex_def initialized_real_parameter[OF assms(1,3)]
        getParameterCount_def getParameterRepeatValue_real[OF assms(1-3)]
        getParameterClampValue_real[OF assms(1-3)] withParameterValue_def f32_get_def f32_set_def)
qed






lemma demo_ranges:
  "getParameterMinimumValue demo 1 = Fin 0" "getParameterMaximumValue demo 1 = Fin 10"
  "getParameterMinimumValue demo 0 = Fin (- 30)" "getParameterMaximumValue demo 0 = Fin 30"
  "getParameterCount demo = 2"
  "getParameterMinimumValue (setOverrideFlagForModelParameterRepeat demo False) 1 = Fin 0"
  "getParameterMaximumValue (setOverrideFlagForModelParameterRepeat demo False) 1 = Fin 10"
  "getParameterCount (setOverrideFlagForModelParameterRepeat demo False) = 2"
  by (simp_all add: getParameterMinimumValue_def getParameterMaximumValue_def
      getParameterCount_def setOverrideFlagForModelParameterRepeat_def f32_get_def
      of_f32_to_f32 demo_def demo_Model_def)


lemma demo_policies:
  "isRepeat (setOverrideFlagForModelParameterRepeat demo False) 1 = Inr True"
  "isRepeat demo 1 = Inr False" "isRepeat demo 0 = Inr False"
  by (simp_all add: isRepeat_def isExist_def getParameterCount_def
      getOverrideFlagForParameterRepeat_def getRepeatFlagForParameterRepeat_def
      getParameterRepeats_def setOverrideFlagForModelParameterRepeat_def vec_at_def
      demo_def demo_Model_def)





subsection \<open>Adding to and multiplying a parameter value\<close>

text \<open>
  Claim C8. For every parameter index \<open>i\<close>, value \<open>v\<close> and weight \<open>w\<close>,
  \<^verbatim>\<open>addParameterValueByIndex(i, v, w)\<close> produces the state of
  \<^verbatim>\<open>setParameterValueByIndex(i, getParameterValueByIndex(i) + v*w)\<close>, and
  \<^verbatim>\<open>multiplyParameterValueByIndex(i, v, w)\<close> that of
  \<^verbatim>\<open>setParameterValueByIndex(i, getParameterValueByIndex(i) * (1 + (v-1)*w))\<close>; where
  the read fails, both fail with it. Whatever \<^verbatim>\<open>setParameterValueByIndex\<close> does with
  the index, wrap, clamp or the absent table, is thereby done to the new value.
\<close>

theorem add_multiply_by_set:
  "addParameterValueByIndex s i v w = setOfGet s i (\<lambda>x. x + v * w)
   \<and> multiplyParameterValueByIndex s i v w = setOfGet s i (\<lambda>x. x * (Fin 1 + (v - Fin 1) * w))
   \<and> (\<forall>x. getParameterValueByIndex s i = Inr x \<longrightarrow>
          addParameterValueByIndex s i v w
            = setParameterValueByIndex s i (x + v * w) (Fin 1)
        \<and> multiplyParameterValueByIndex s i v w
            = setParameterValueByIndex s i (x * (Fin 1 + (v - Fin 1) * w)) (Fin 1))
   \<and> (\<forall>e. getParameterValueByIndex s i = Inl e \<longrightarrow>
          addParameterValueByIndex s i v w = Inl e
        \<and> multiplyParameterValueByIndex s i v w = Inl e)"
  by (simp add: addParameterValueByIndex_def multiplyParameterValueByIndex_def setOfGet_def)

theorem add_multiply_by_set_witness:
  "getParameterValueByIndex demo 0 = Inr (Fin 0)
   \<and> addParameterValueByIndex demo 0 (Fin 45) (Fin 1)
       = Inr (withParameterValue demo 0 (Fin 30))
   \<and> getParameterValueByIndex demo 7 = Inl AssertionFailed
   \<and> multiplyParameterValueByIndex demo 7 (Fin 2) (Fin 1) = Inl AssertionFailed"
proof -
  have g: "getParameterValueByIndex demo 0 = Inr (Fin 0)"
      "getParameterValueByIndex demo 7 = Inl AssertionFailed"
    by (simp_all add: getParameterValueByIndex_def getValue_def getParameterCount_def f32_get_def
        demo_def demo_Model_def)
  have c: "(0::int) \<le> 0" "0 < int (parameters_count (model demo))"
    by (simp_all add: demo_def demo_Model_def)
  have v: "of_f32 (parameters_values (model demo) ! nat 0) = Fin 0"
    by (simp add: demo_def demo_Model_def)
  have m: "Math_max (Math_min (Fin 45) (Fin 30)) (Fin (- 30)) = Fin 30"
    by (simp add: Math_min_def Math_max_def isNumber_def)
  have "setParameterValueByIndex demo 0 (Fin 45) (Fin 1)
      = Inr (withParameterValue demo 0 (Fin 30))"
    using setParameterValueByIndex_real [OF demo_initialized c demo_policies(3), of "Fin 45" "Fin 1"]
    by (simp add: blend_def demo_ranges CubismMath_clamp_def m)
  moreover have "Fin 0 + Fin 45 * Fin 1 = Fin 45"
    by simp
  moreover have "addParameterValueByIndex demo 0 (Fin 45) (Fin 1)
      = setParameterValueByIndex demo 0 (Fin 0 + Fin 45 * Fin 1) (Fin 1)"
    using add_multiply_by_set [of demo 0 "Fin 45" "Fin 1"] g(1) by blast
  moreover have "multiplyParameterValueByIndex demo 7 (Fin 2) (Fin 1) = Inl AssertionFailed"
    using add_multiply_by_set [of demo 7 "Fin 2" "Fin 1"] g(2) by blast
  ultimately show ?thesis
    using g by simp
qed

subsection \<open>The tables of absent identifiers\<close>

lemma getValue_setValue_same: "getValue (setValue m k v) k = Some v"
  by (induction m) (auto simp: getValue_def)

lemma getValue_setValue_other: "k' \<noteq> k \<Longrightarrow> getValue (setValue m k v) k' = getValue m k'"
  by (induction m) (auto simp: getValue_def)

lemma setValue_new: "\<not> isExist m k \<Longrightarrow> setValue m k v = m @ [(k, v)]"
  by (induction m) (auto simp: isExist_def)

lemma map_fst_setValue_gen:
  "map fst (setValue m k v) = (if k \<in> fst ` set m then map fst m else map fst m @ [k])"
proof (induction m)
  case Nil
  then show ?case by simp
next
  case (Cons kv m)
  obtain k' v' where kv: "kv = (k', v')" by (cases kv)
  show ?case
  proof (cases "k' = k")
    case True
    with kv show ?thesis by simp
  next
    case False
    with kv Cons show ?thesis by simp
  qed
qed

lemma map_fst_setValue: "isExist m k \<Longrightarrow> map fst (setValue m k v) = map fst m"
  by (simp add: isExist_def map_fst_setValue_gen)

lemma isExist_setValue: "isExist (setValue m k v) k' \<longleftrightarrow> k' = k \<or> isExist m k'"
proof -
  have "set (map fst (setValue m k v)) = insert k (set (map fst m))"
    unfolding map_fst_setValue_gen by auto
  then show ?thesis
    unfolding isExist_def by (simp only: insert_iff)
qed

lemma absentIndices_Suc: "absentIndices count (Suc n) = absentIndices count n @ [int count + int n]"
  by (simp add: absentIndices_def)

lemma absentIndices_lt: "k \<in> set (absentIndices count n) \<Longrightarrow> k < int count + int n"
  by (auto simp: absentIndices_def)

lemma getPartIndex_lookup:
  "getPartIndex s h =
     (case lookupIndex (parts_count (model s)) (partIds s) (notExistPartId s)
             (notExistPartOpacities s) h of
        (idx, idm, vals) \<Rightarrow> (idx, s\<lparr>notExistPartId := idm, notExistPartOpacities := vals\<rparr>))"
  by (simp add: getPartIndex_def lookupIndex_def Let_def split: option.splits)

lemma getParameterIndex_lookup:
  "getParameterIndex s h =
     (case lookupIndex (parameters_count (model s)) (parameterIds s) (notExistParameterId s)
             (notExistParameterValues s) h of
        (idx, idm, vals) \<Rightarrow>
          (idx, s\<lparr>notExistParameterId := idm, notExistParameterValues := vals\<rparr>))"
  by (simp add: getParameterIndex_def lookupIndex_def Let_def split: option.splits)

lemma lookupIndex_known:
  assumes "h \<in> set (take count ids)"
  shows "\<exists>k. lookupIndex count ids idm vals h = (int k, idm, vals) \<and> k < count"
proof -
  from assms obtain k where "scanIds ids count h = Some k"
    using scanIds_None[of ids count h] by auto
  with scanIds_Some[OF this] show ?thesis
    by (auto simp: lookupIndex_def)
qed

lemma lookupIndex_found:
  assumes "h \<notin> set (take count ids)" "getValue idm h = Some idx"
  shows "lookupIndex count ids idm vals h = (idx, idm, vals)"
  using assms scanIds_None[of ids count h]
  by (simp add: lookupIndex_def)

lemma lookupIndex_new:
  assumes "absentTables count idm vals" "h \<notin> set (take count ids)" "getValue idm h = None"
  shows "lookupIndex count ids idm vals h
           = (int count + int (length idm),
              idm @ [(h, int count + int (length idm))],
              vals @ [(int count + int (length idm), Undefined)])"
    and "absentTables count (idm @ [(h, int count + int (length idm))])
           (vals @ [(int count + int (length idm), Undefined)])"
proof -
  let ?idx = "int count + int (length idm)"
  have nk: "\<not> isExist idm h"
    using assms(3) by (simp add: isExist_getValue)
  have "\<not> isExist vals ?idx"
  proof
    assume "isExist vals ?idx"
    then have "?idx \<in> set (map fst vals)" by (simp only: isExist_def)
    with assms(1) have "?idx \<in> set (absentIndices count (length idm))"
      by (simp only: absentTables_def)
    from absentIndices_lt[OF this] show False by simp
  qed
  with nk assms(2,3) scanIds_None[of ids count h]
  show "lookupIndex count ids idm vals h = (?idx, idm @ [(h, ?idx)], vals @ [(?idx, Undefined)])"
    by (simp add: lookupIndex_def getSize_def setValue_new appendKey_def Let_def)
  from assms(1) show "absentTables count (idm @ [(h, ?idx)]) (vals @ [(?idx, Undefined)])"
    by (simp add: absentTables_def absentIndices_Suc)
qed

lemma getValue_append_new: "getValue m h = None \<Longrightarrow> getValue (m @ [(h, v)]) h = Some v"
  by (simp add: getValue_def map_add_def split: option.splits)

lemma getValue_append_other: "h' \<noteq> h \<Longrightarrow> getValue (m @ [(h, v)]) h' = getValue m h'"
  by (simp add: getValue_def map_add_def split: option.splits)

lemma absentTables_isExist:
  assumes "absentTables count idm vals" "getValue idm h = Some idx"
  shows "isExist vals idx" "int count \<le> idx"
proof -
  from assms(2) have "(h, idx) \<in> set idm"
    by (simp add: getValue_def map_of_SomeD)
  then have "idx \<in> set (map snd idm)" by force
  with assms(1) show "isExist vals idx"
    unfolding isExist_def absentTables_def by (simp only:)
  from \<open>idx \<in> set (map snd idm)\<close> assms(1)
  have "idx \<in> set (absentIndices count (length idm))"
    unfolding absentTables_def by (simp only:)
  from absentIndices_ge[OF this] show "int count \<le> idx" .
qed


lemma initialized_absentTables:
  "initialized s \<Longrightarrow>
     absentTables (parameters_count (model s)) (notExistParameterId s) (notExistParameterValues s)
     \<and> absentTables (parts_count (model s)) (notExistPartId s) (notExistPartOpacities s)"
  by (simp add: initialized_def absentTables_def)

lemma initialized_parameter_tables:
  "initialized s \<Longrightarrow> absentTables (parameters_count (model s)) idm vals \<Longrightarrow>
   initialized (s\<lparr>notExistParameterId := idm, notExistParameterValues := vals\<rparr>)"
  by (simp add: initialized_def absentTables_def)

lemma initialized_part_tables:
  "initialized s \<Longrightarrow> absentTables (parts_count (model s)) idm vals \<Longrightarrow>
   initialized (s\<lparr>notExistPartId := idm, notExistPartOpacities := vals\<rparr>)"
  by (simp add: initialized_def absentTables_def)

lemma getParameterIndex_new:
  assumes "initialized s" "\<not> knownParameter s h" "getValue (notExistParameterId s) h = None"
  shows "\<exists>s1. getParameterIndex s h
                  = (int (getParameterCount s) + int (length (notExistParameterId s)), s1)
           \<and> notExistParameterValues s1
               = notExistParameterValues s
                   @ [(int (getParameterCount s) + int (length (notExistParameterId s)), Undefined)]
           \<and> getParameterIndex s1 h
               = (int (getParameterCount s) + int (length (notExistParameterId s)), s1)
           \<and> getParameterCount s1 = getParameterCount s
           \<and> initialized s1"
proof -
  let ?c = "parameters_count (model s)"
  let ?idx = "int ?c + int (length (notExistParameterId s))"
  let ?idm = "notExistParameterId s @ [(h, ?idx)]"
  let ?vals = "notExistParameterValues s @ [(?idx, Undefined)]"
  let ?s1 = "s\<lparr>notExistParameterId := ?idm, notExistParameterValues := ?vals\<rparr>"
  have unk: "h \<notin> set (take ?c (parameterIds s))"
    using assms(2) by (simp add: knownParameter_def)
  have tab: "absentTables ?c (notExistParameterId s) (notExistParameterValues s)"
    using initialized_absentTables[OF assms(1)] by simp
  note new = lookupIndex_new[OF tab unk assms(3)]
  have 1: "getParameterIndex s h = (?idx, ?s1)"
    by (simp add: getParameterIndex_lookup new(1))
  have "getValue ?idm h = Some ?idx"
    using assms(3) by (rule getValue_append_new)
  from lookupIndex_found[OF unk this, of ?vals]
  have 2: "getParameterIndex ?s1 h = (?idx, ?s1)"
    by (simp add: getParameterIndex_lookup)
  have 3: "initialized ?s1"
    using initialized_parameter_tables[OF assms(1) new(2)] .
  from 1 2 3 show ?thesis
    by (intro exI[of _ ?s1]) (simp add: getParameterCount_def)
qed

lemma getPartIndex_new:
  assumes "initialized s" "\<not> knownPart s h" "getValue (notExistPartId s) h = None"
  shows "\<exists>s1. getPartIndex s h = (int (getPartCount s) + int (length (notExistPartId s)), s1)
           \<and> notExistPartOpacities s1
               = notExistPartOpacities s
                   @ [(int (getPartCount s) + int (length (notExistPartId s)), Undefined)]
           \<and> getPartIndex s1 h = (int (getPartCount s) + int (length (notExistPartId s)), s1)
           \<and> getPartCount s1 = getPartCount s
           \<and> initialized s1"
proof -
  let ?c = "parts_count (model s)"
  let ?idx = "int ?c + int (length (notExistPartId s))"
  let ?idm = "notExistPartId s @ [(h, ?idx)]"
  let ?vals = "notExistPartOpacities s @ [(?idx, Undefined)]"
  let ?s1 = "s\<lparr>notExistPartId := ?idm, notExistPartOpacities := ?vals\<rparr>"
  have unk: "h \<notin> set (take ?c (partIds s))"
    using assms(2) by (simp add: knownPart_def)
  have tab: "absentTables ?c (notExistPartId s) (notExistPartOpacities s)"
    using initialized_absentTables[OF assms(1)] by simp
  note new = lookupIndex_new[OF tab unk assms(3)]
  have 1: "getPartIndex s h = (?idx, ?s1)"
    by (simp add: getPartIndex_lookup new(1))
  have "getValue ?idm h = Some ?idx"
    using assms(3) by (rule getValue_append_new)
  from lookupIndex_found[OF unk this, of ?vals]
  have 2: "getPartIndex ?s1 h = (?idx, ?s1)"
    by (simp add: getPartIndex_lookup)
  have 3: "initialized ?s1"
    using initialized_part_tables[OF assms(1) new(2)] .
  from 1 2 3 show ?thesis
    by (intro exI[of _ ?s1]) (simp add: getPartCount_def)
qed

lemma getParameterIndex_again:
  assumes "\<not> knownParameter s h" "getValue (notExistParameterId s) h = Some idx"
  shows "getParameterIndex s h = (idx, s)"
  using lookupIndex_found[of h "parameters_count (model s)" "parameterIds s"
      "notExistParameterId s" idx "notExistParameterValues s"] assms
  by (simp add: getParameterIndex_lookup knownParameter_def)

lemma getPartIndex_again:
  assumes "\<not> knownPart s h" "getValue (notExistPartId s) h = Some idx"
  shows "getPartIndex s h = (idx, s)"
  using lookupIndex_found[of h "parts_count (model s)" "partIds s"
      "notExistPartId s" idx "notExistPartOpacities s"] assms
  by (simp add: getPartIndex_lookup knownPart_def)

text \<open>
  Claim C6. In an initialised model, the first lookup of an identifier unknown to the
  asset by \<^verbatim>\<open>getParameterIndex\<close> (respectively \<^verbatim>\<open>getPartIndex\<close>) returns the synthetic
  index \<open>count + n\<close>, where \<open>n\<close> identifiers were absent before, and appends one value
  slot for that index; the lookup repeated returns the same index and the same model, so
  no further slot; an identifier already in the table is answered from the table
  without any change; and \<^verbatim>\<open>getParameterCount()\<close> (respectively \<^verbatim>\<open>getPartCount()\<close>) is
  unchanged.
\<close>

theorem absent_identifier_lookup:
  assumes "initialized s"
  shows "(\<not> knownParameter s h \<and> getValue (notExistParameterId s) h = None \<longrightarrow>
            (\<exists>s1. getParameterIndex s h
                      = (int (getParameterCount s) + int (length (notExistParameterId s)), s1)
               \<and> notExistParameterValues s1
                   = notExistParameterValues s
                       @ [(int (getParameterCount s) + int (length (notExistParameterId s)),
                           Undefined)]
               \<and> getParameterIndex s1 h
                   = (int (getParameterCount s) + int (length (notExistParameterId s)), s1)
               \<and> getParameterCount s1 = getParameterCount s
               \<and> initialized s1))
       \<and> (\<forall>idx. \<not> knownParameter s h \<and> getValue (notExistParameterId s) h = Some idx \<longrightarrow>
            getParameterIndex s h = (idx, s))
       \<and> (\<not> knownPart s h \<and> getValue (notExistPartId s) h = None \<longrightarrow>
            (\<exists>s1. getPartIndex s h
                      = (int (getPartCount s) + int (length (notExistPartId s)), s1)
               \<and> notExistPartOpacities s1
                   = notExistPartOpacities s
                       @ [(int (getPartCount s) + int (length (notExistPartId s)), Undefined)]
               \<and> getPartIndex s1 h
                   = (int (getPartCount s) + int (length (notExistPartId s)), s1)
               \<and> getPartCount s1 = getPartCount s
               \<and> initialized s1))
       \<and> (\<forall>idx. \<not> knownPart s h \<and> getValue (notExistPartId s) h = Some idx \<longrightarrow>
            getPartIndex s h = (idx, s))"
  using getParameterIndex_new[OF assms, of h] getPartIndex_new[OF assms, of h]
    getParameterIndex_again[of s h] getPartIndex_again[of s h]
  by blast


theorem absent_identifier_lookup_witness:
  "initialized demo
   \<and> \<not> knownParameter demo ''ParamBreath''
   \<and> fst (getParameterIndex demo ''ParamBreath'') = 2
   \<and> notExistParameterValues (snd (getParameterIndex demo ''ParamBreath'')) = [(2, Undefined)]
   \<and> getParameterIndex (snd (getParameterIndex demo ''ParamBreath'')) ''ParamBreath''
       = (2, snd (getParameterIndex demo ''ParamBreath''))
   \<and> getParameterCount (snd (getParameterIndex demo ''ParamBreath'')) = 2
   \<and> \<not> knownPart demo ''PartArm''
   \<and> fst (getPartIndex demo ''PartArm'') = 1
   \<and> getPartIndex (snd (getPartIndex demo ''PartArm'')) ''PartArm''
       = (1, snd (getPartIndex demo ''PartArm''))"
proof -
  have u: "\<not> knownParameter demo ''ParamBreath''"
      "getValue (notExistParameterId demo) ''ParamBreath'' = None"
      "\<not> knownPart demo ''PartArm''"
      "getValue (notExistPartId demo) ''PartArm'' = None"
    by (simp_all add: knownParameter_def knownPart_def getValue_def demo_def demo_Model_def)
  have n: "getParameterCount demo = 2" "length (notExistParameterId demo) = 0"
      "notExistParameterValues demo = []" "getPartCount demo = 1"
      "length (notExistPartId demo) = 0"
    by (simp_all add: getParameterCount_def getPartCount_def demo_def demo_Model_def)
  from absent_identifier_lookup [OF demo_initialized, of "''ParamBreath''"] u(1,2)
  obtain s1 where s1: "getParameterIndex demo ''ParamBreath''
        = (int (getParameterCount demo) + int (length (notExistParameterId demo)), s1)"
      "notExistParameterValues s1 = notExistParameterValues demo
         @ [(int (getParameterCount demo) + int (length (notExistParameterId demo)), Undefined)]"
      "getParameterIndex s1 ''ParamBreath''
        = (int (getParameterCount demo) + int (length (notExistParameterId demo)), s1)"
      "getParameterCount s1 = getParameterCount demo"
    by blast
  from absent_identifier_lookup [OF demo_initialized, of "''PartArm''"] u(3,4)
  obtain s2 where s2: "getPartIndex demo ''PartArm''
        = (int (getPartCount demo) + int (length (notExistPartId demo)), s2)"
      "getPartIndex s2 ''PartArm''
        = (int (getPartCount demo) + int (length (notExistPartId demo)), s2)"
    by blast
  from s1 s2 n u demo_initialized show ?thesis
    by simp
qed

subsection \<open>Part opacity by identifier\<close>

text \<open>
  Claim C10, amended. In an initialised model \<^verbatim>\<open>getPartIndex\<close> never returns a negative
  index, so the branches \<^verbatim>\<open>index < 0\<close> of \<^verbatim>\<open>setPartOpacityById\<close> and
  \<^verbatim>\<open>getPartOpacityById\<close> are never taken; and \<^verbatim>\<open>setPartOpacityById(id, v)\<close> followed
  by \<^verbatim>\<open>getPartOpacityById(id)\<close> returns \<open>v\<close> for an identifier that is not of the asset,
  whose opacity is kept in the table of absent identifiers, and the single-precision
  value nearest to \<open>v\<close> for a part of the asset, whose opacity is kept in the
  \<^verbatim>\<open>Float32Array\<close> of the snapshot. The claim as worded, "returns o" for every
  identifier, does not hold for the parts of the asset (shown on the small asset
  below).
\<close>

theorem part_opacity_roundtrip:
  assumes "initialized s"
  shows "0 \<le> fst (getPartIndex s h)
       \<and> (\<exists>s1 s2. setPartOpacityById s h v = Inr s1
            \<and> getPartOpacityById s1 h = Inr (if knownPart s h then Math_fround v else v, s2))"
proof (cases "knownPart s h")
  case True
  let ?c = "parts_count (model s)"
  from True obtain k where k: "lookupIndex ?c (partIds s) (notExistPartId s)
      (notExistPartOpacities s) h = (int k, notExistPartId s, notExistPartOpacities s)" "k < ?c"
    using lookupIndex_known[of h ?c "partIds s"] by (auto simp: knownPart_def)
  then have gi: "getPartIndex s h = (int k, s)"
    by (simp add: getPartIndex_lookup)
  have kc: "int k < int ?c" using k(2) by simp
  have len: "k < length (parts_opacities (model s))"
    using assms k(2) by (simp add: initialized_def wf_Model_def)
  let ?s1 = "s\<lparr>model := (model s)\<lparr>parts_opacities :=
                                   (parts_opacities (model s))[k := to_f32 v]\<rparr>\<rparr>"
  have set: "setPartOpacityById s h v = Inr ?s1"
    using gi kc len initialized_real_part[OF assms kc]
    by (simp add: setPartOpacityById_def setPartOpacityByIndex_def getPartCount_def f32_set_def)
  have gi1: "getPartIndex ?s1 h = (int k, ?s1)"
    using k(1) by (simp add: getPartIndex_lookup)
  have "getPartOpacityById ?s1 h = Inr (Math_fround v, ?s1)"
    using gi1 kc len initialized_real_part[OF assms kc]
    by (simp add: getPartOpacityById_def getPartOpacityByIndex_def getPartCount_def f32_get_def)
  with set gi True show ?thesis
    by auto
next
  case False
  have "\<exists>idx s0. getPartIndex s h = (idx, s0) \<and> initialized s0 \<and> \<not> knownPart s0 h
          \<and> getValue (notExistPartId s0) h = Some idx"
  proof (cases "getValue (notExistPartId s) h")
    case None
    from getPartIndex_new[OF assms False None] obtain s0 where
      s0: "getPartIndex s h = (int (getPartCount s) + int (length (notExistPartId s)), s0)"
        "getPartIndex s0 h = (int (getPartCount s) + int (length (notExistPartId s)), s0)"
        "initialized s0"
      by blast
    have "getPartIndex s h
        = (int (getPartCount s) + int (length (notExistPartId s)),
           s\<lparr>notExistPartId := setValue (notExistPartId s) h
                  (int (getPartCount s) + int (length (notExistPartId s))),
              notExistPartOpacities := appendKey (notExistPartOpacities s)
                  (int (getPartCount s) + int (length (notExistPartId s)))\<rparr>)"
      using False None scanIds_None[of "partIds s" "parts_count (model s)" h]
      by (simp add: getPartIndex_def knownPart_def getPartCount_def getSize_def Let_def)
    with s0(1) have "notExistPartId s0 = setValue (notExistPartId s) h
        (int (getPartCount s) + int (length (notExistPartId s)))"
        "partIds s0 = partIds s" "model s0 = model s"
      by auto
    with False have "\<not> knownPart s0 h"
        "getValue (notExistPartId s0) h
           = Some (int (getPartCount s) + int (length (notExistPartId s)))"
      by (simp_all add: knownPart_def getValue_setValue_same)
    with s0 show ?thesis by blast
  next
    case (Some idx)
    from getPartIndex_again[OF False Some] assms False Some show ?thesis by blast
  qed
  then obtain idx s0 where s0: "getPartIndex s h = (idx, s0)" "initialized s0"
      "\<not> knownPart s0 h" "getValue (notExistPartId s0) h = Some idx"
    by blast
  have tab: "absentTables (parts_count (model s0)) (notExistPartId s0) (notExistPartOpacities s0)"
    using initialized_absentTables[OF s0(2)] by simp
  note ex = absentTables_isExist[OF tab s0(4)]
  have nonneg: "0 \<le> idx" using ex(2) by simp
  let ?s1 = "s0\<lparr>notExistPartOpacities := setValue (notExistPartOpacities s0) idx v\<rparr>"
  have set: "setPartOpacityById s h v = Inr ?s1"
    using s0(1) nonneg ex(1)
    by (simp add: setPartOpacityById_def setPartOpacityByIndex_def)
  have "\<not> knownPart ?s1 h" "getValue (notExistPartId ?s1) h = Some idx"
    using s0(3,4) by (simp_all add: knownPart_def)
  from getPartIndex_again[OF this] have gi1: "getPartIndex ?s1 h = (idx, ?s1)" .
  have "getPartOpacityById ?s1 h = Inr (v, ?s1)"
    using gi1 nonneg
    by (simp add: getPartOpacityById_def getPartOpacityByIndex_def getValue_setValue_same)
  with set s0(1) nonneg False show ?thesis
    by auto
qed

text \<open>
  The small asset: a tenth set for \<open>PartArm\<close>, which the asset does not have, is
  returned as it is, and a half set for \<open>PartBody\<close>, the part of the asset, is a
  single-precision value and is returned as it is.
\<close>

theorem part_opacity_roundtrip_witness:
  "initialized demo
   \<and> 0 \<le> fst (getPartIndex demo ''PartArm'')
   \<and> \<not> knownPart demo ''PartArm''
   \<and> (\<exists>s1 s2. setPartOpacityById demo ''PartArm'' (Fin (1 / 10)) = Inr s1
          \<and> getPartOpacityById s1 ''PartArm'' = Inr (Fin (1 / 10), s2))
   \<and> knownPart demo ''PartBody''
   \<and> (\<exists>s1 s2. setPartOpacityById demo ''PartBody'' (Fin (1 / 2)) = Inr s1
          \<and> getPartOpacityById s1 ''PartBody'' = Inr (Fin (1 / 2), s2))"
proof -
  have k: "\<not> knownPart demo ''PartArm''" "knownPart demo ''PartBody''"
    by (simp_all add: knownPart_def demo_def demo_Model_def)
  from part_opacity_roundtrip [OF demo_initialized, of "''PartArm''" "Fin (1 / 10)"]
    part_opacity_roundtrip [OF demo_initialized, of "''PartBody''" "Fin (1 / 2)"]
    demo_initialized k
  show ?thesis
    by simp
qed

text \<open>
  A tenth set for \<open>PartBody\<close>: the array then holds, and \<^verbatim>\<open>getPartOpacityById\<close> returns,
  \<open>13421773 / 134217728\<close> (0.10000000149011612), not a tenth.
\<close>

theorem part_opacity_roundtrip_counterexample:
  "initialized demo
   \<and> knownPart demo ''PartBody''
   \<and> setPartOpacityById demo ''PartBody'' (Fin (1 / 10)) = Inr (demo_faded (Fin (1 / 10)))
   \<and> getPartOpacityById (demo_faded (Fin (1 / 10))) ''PartBody''
       = Inr (Fin (13421773 / 134217728), demo_faded (Fin (1 / 10)))
   \<and> Fin (13421773 / 134217728) \<noteq> Fin (1 / 10)"
proof -
  have k: "knownPart demo ''PartBody''"
    by (simp add: knownPart_def demo_def demo_Model_def)
  have i: "getPartIndex demo ''PartBody'' = (0, demo)"
      "getPartIndex (demo_faded (Fin (1 / 10))) ''PartBody'' = (0, demo_faded (Fin (1 / 10)))"
    by (simp_all add: getPartIndex_def scanIds_def vec_at_def upt_conv_Cons demo_faded_def
        demo_def demo_Model_def)
  have 1: "setPartOpacityById demo ''PartBody'' (Fin (1 / 10)) = Inr (demo_faded (Fin (1 / 10)))"
    unfolding setPartOpacityById_def i
    by (simp add: setPartOpacityByIndex_def isExist_def getPartCount_def f32_set_def
        demo_faded_def demo_def demo_Model_def)
  have 2: "getPartOpacityById (demo_faded (Fin (1 / 10))) ''PartBody''
      = Inr (Fin (13421773 / 134217728), demo_faded (Fin (1 / 10)))"
    unfolding getPartOpacityById_def i
    by (simp add: getPartOpacityByIndex_def getValue_def getPartCount_def f32_get_def
        Math_fround_tenth demo_faded_def demo_def demo_Model_def)
  from demo_initialized k 1 2 show ?thesis
    by simp
qed

subsection \<open>The methods keep a model initialised\<close>

text \<open>
  \<open>initialized\<close> is what \<^verbatim>\<open>initialize\<close> establishes (\<open>initialize_initialized\<close>); the
  methods that the statements above are about keep it, so it holds of a model at any
  later time. The culling setters also keep the one shared reference.
\<close>

lemma initialized_cullingStore:
  "initialized s \<Longrightarrow> initialized (s\<lparr>cullingStore := st\<rparr>)"
  by (simp add: initialized_def)

lemma setDrawableCulling_initialized:
  assumes "initialized s" "setDrawableCulling s i value = Inr s'"
  shows "initialized s' \<and> (sharedCulling s \<longrightarrow> sharedCulling s')"
proof -
  from assms(2) obtain st where "s' = s\<lparr>cullingStore := st\<rparr>"
    by (auto simp: setDrawableCulling_def split: option.splits)
  with assms(1) show ?thesis
    by (simp add: initialized_cullingStore sharedCulling_def)
qed

lemma setOverrideFlagForDrawableCullings_initialized:
  assumes "initialized s" "setOverrideFlagForDrawableCullings s i value = Inr s'"
  shows "initialized s' \<and> (sharedCulling s \<longrightarrow> sharedCulling s')"
proof -
  from assms(2) obtain st where "s' = s\<lparr>cullingStore := st\<rparr>"
    by (auto simp: setOverrideFlagForDrawableCullings_def split: option.splits)
  with assms(1) show ?thesis
    by (simp add: initialized_cullingStore sharedCulling_def)
qed

lemma initialized_values:
  "initialized s \<Longrightarrow> length vs = length (parameters_values (model s)) \<Longrightarrow>
   initialized (s\<lparr>model := (model s)\<lparr>parameters_values := vs\<rparr>\<rparr>)"
  by (simp add: initialized_def wf_Model_def)

lemma initialized_opacities:
  "initialized s \<Longrightarrow> length vs = length (parts_opacities (model s)) \<Longrightarrow>
   initialized (s\<lparr>model := (model s)\<lparr>parts_opacities := vs\<rparr>\<rparr>)"
  by (simp add: initialized_def wf_Model_def)

lemma initialized_parameter_values_table:
  "initialized s \<Longrightarrow> map fst vals = map fst (notExistParameterValues s) \<Longrightarrow>
   initialized (s\<lparr>notExistParameterValues := vals\<rparr>)"
  by (simp add: initialized_def)

lemma initialized_part_opacities_table:
  "initialized s \<Longrightarrow> map fst vals = map fst (notExistPartOpacities s) \<Longrightarrow>
   initialized (s\<lparr>notExistPartOpacities := vals\<rparr>)"
  by (simp add: initialized_def)

lemma setParameterValueByIndex_initialized:
  assumes "initialized s" "setParameterValueByIndex s i v w = Inr s'"
  shows "initialized s'"
proof (cases "getValue (notExistParameterValues s) i")
  case None
  with assms(2) obtain x where
    "s' = s\<lparr>model := (model s)\<lparr>parameters_values := f32_set (parameters_values (model s)) i x\<rparr>\<rparr>"
    by (auto simp: setParameterValueByIndex_def split: if_splits sum.splits)
  with assms(1) show ?thesis
    by (simp add: initialized_values f32_set_length)
next
  case (Some old)
  then have ex: "isExist (notExistParameterValues s) i"
    by (simp add: isExist_getValue)
  from Some assms(2) obtain x where
    "s' = s\<lparr>notExistParameterValues := setValue (notExistParameterValues s) i x\<rparr>"
    by (auto simp: setParameterValueByIndex_def)
  with assms(1) map_fst_setValue[OF ex] show ?thesis
    by (simp add: initialized_parameter_values_table)
qed

lemma setPartOpacityByIndex_initialized:
  assumes "initialized s" "setPartOpacityByIndex s i v = Inr s'"
  shows "initialized s'"
proof (cases "isExist (notExistPartOpacities s) i")
  case True
  with assms(2) have
    "s' = s\<lparr>notExistPartOpacities := setValue (notExistPartOpacities s) i v\<rparr>"
    by (simp add: setPartOpacityByIndex_def)
  with assms(1) map_fst_setValue[OF True] show ?thesis
    by (simp add: initialized_part_opacities_table)
next
  case False
  with assms(2) have
    "s' = s\<lparr>model := (model s)\<lparr>parts_opacities := f32_set (parts_opacities (model s)) i v\<rparr>\<rparr>"
    by (simp add: setPartOpacityByIndex_def split: if_splits)
  with assms(1) show ?thesis
    by (simp add: initialized_opacities f32_set_length)
qed

lemma saveParameters_initialized: "initialized s \<Longrightarrow> initialized (saveParameters s)"
  by (simp add: saveParameters_def initialized_def Let_def)

lemma loadParameters_initialized:
  assumes "initialized s"
  shows "initialized (loadParameters s)"
proof -
  have "length (parameters_values (model (loadParameters s)))
      = length (parameters_values (model s))"
    by (simp add: values_loadParameters)
  moreover have "loadParameters s = s\<lparr>model := (model s)\<lparr>parameters_values :=
          parameters_values (model (loadParameters s))\<rparr>\<rparr>"
    by (simp add: loadParameters_def Let_def)
  ultimately show ?thesis
    using initialized_values[OF assms] by metis
qed


lemma getParameterIndex_initialized:
  assumes "initialized s"
  shows "initialized (snd (getParameterIndex s h))"
proof (cases "knownParameter s h")
  case True
  then obtain k where "lookupIndex (parameters_count (model s)) (parameterIds s)
      (notExistParameterId s) (notExistParameterValues s) h
        = (int k, notExistParameterId s, notExistParameterValues s)"
    using lookupIndex_known[of h "parameters_count (model s)" "parameterIds s"]
    by (auto simp: knownParameter_def)
  with assms show ?thesis
    by (simp add: getParameterIndex_lookup)
next
  case False
  show ?thesis
  proof (cases "getValue (notExistParameterId s) h")
    case None
    from getParameterIndex_new[OF assms False None] show ?thesis by auto
  next
    case (Some idx)
    from getParameterIndex_again[OF False Some] assms show ?thesis by simp
  qed
qed

lemma getPartIndex_initialized:
  assumes "initialized s"
  shows "initialized (snd (getPartIndex s h))"
proof (cases "knownPart s h")
  case True
  then obtain k where "lookupIndex (parts_count (model s)) (partIds s)
      (notExistPartId s) (notExistPartOpacities s) h
        = (int k, notExistPartId s, notExistPartOpacities s)"
    using lookupIndex_known[of h "parts_count (model s)" "partIds s"]
    by (auto simp: knownPart_def)
  with assms show ?thesis
    by (simp add: getPartIndex_lookup)
next
  case False
  show ?thesis
  proof (cases "getValue (notExistPartId s) h")
    case None
    from getPartIndex_new[OF assms False None] show ?thesis by auto
  next
    case (Some idx)
    from getPartIndex_again[OF False Some] assms show ?thesis by simp
  qed
qed

lemma setPartOpacityById_initialized:
  assumes "initialized s" "setPartOpacityById s h v = Inr s'"
  shows "initialized s'"
proof -
  obtain idx s0 where g: "getPartIndex s h = (idx, s0)"
    by (cases "getPartIndex s h")
  with getPartIndex_initialized[OF assms(1), of h] have s0: "initialized s0"
    by simp
  show ?thesis
  proof (cases "idx < 0")
    case True
    with g assms(2) s0 show ?thesis
      by (simp add: setPartOpacityById_def)
  next
    case False
    with g assms(2) have "setPartOpacityByIndex s0 idx v = Inr s'"
      by (simp add: setPartOpacityById_def)
    from setPartOpacityByIndex_initialized[OF s0 this] show ?thesis .
  qed
qed

lemma setParameterValueById_initialized:
  assumes "initialized s" "setParameterValueById s h v w = Inr s'"
  shows "initialized s'"
proof -
  obtain idx s0 where g: "getParameterIndex s h = (idx, s0)"
    by (cases "getParameterIndex s h")
  with getParameterIndex_initialized[OF assms(1), of h] have s0: "initialized s0"
    by simp
  from g assms(2) have "setParameterValueByIndex s0 idx v w = Inr s'"
    by (simp add: setParameterValueById_def)
  from setParameterValueByIndex_initialized[OF s0 this] show ?thesis .
qed

text \<open>
  An identifier once in a table of absent identifiers keeps its index under every later
  lookup, of itself or of another identifier.
\<close>

lemma lookupIndex_keeps:
  assumes "getValue idm h = Some idx"
  shows "getValue (fst (snd (lookupIndex count ids idm vals h'))) h = Some idx"
proof (cases "h' = h")
  case True
  with assms show ?thesis
    by (simp add: lookupIndex_def split: option.splits)
next
  case False
  with assms show ?thesis
    by (simp add: lookupIndex_def Let_def getValue_setValue_other split: option.splits)
qed

lemma getParameterIndex_keeps:
  "getValue (notExistParameterId s) h = Some idx \<Longrightarrow>
   getValue (notExistParameterId (snd (getParameterIndex s h'))) h = Some idx"
  using lookupIndex_keeps[of "notExistParameterId s" h idx "parameters_count (model s)"
      "parameterIds s" "notExistParameterValues s" h']
  by (auto simp: getParameterIndex_lookup split: prod.splits)

lemma getPartIndex_keeps:
  "getValue (notExistPartId s) h = Some idx \<Longrightarrow>
   getValue (notExistPartId (snd (getPartIndex s h'))) h = Some idx"
  using lookupIndex_keeps[of "notExistPartId s" h idx "parts_count (model s)"
      "partIds s" "notExistPartOpacities s" h']
  by (auto simp: getPartIndex_lookup split: prod.splits)

end
